theory Spec2Isabelle
  imports Main "HOL-Library.AList"
begin

section \<open>Demultiplexor (src/decombinator/demultiplex.py)\<close>

text \<open>
  A shallow embedding of the demultiplexing script. Python strings are \<open>string\<close>,
  every exception the script can raise on its own is a value of \<open>py_error\<close>, and a
  computation that may raise returns \<open>py_error + 'a\<close> with \<open>Inl\<close> for the exception.
  Files are read through a function \<open>fs\<close> from path to the decoded text of the file
  (after gzip decompression and newline translation); that every opened file exists
  and every write succeeds is assumed throughout.
\<close>

subsection \<open>Exceptions\<close>

datatype py_error =
    NameError string
  | TypeError
  | IndexError
  | KeyError string
  | SystemExit

subsection \<open>String primitives of the Python runtime\<close>

text \<open>Iterating over a text file yields its lines, each with its newline kept.\<close>

fun py_lines :: "string \<Rightarrow> string list" where
  "py_lines [] = []"
| "py_lines (c # cs) =
     (if c = CHR 0x0A then [c] # py_lines cs
      else (case py_lines cs of [] \<Rightarrow> [[c]] | l # ls \<Rightarrow> (c # l) # ls))"

text \<open>\<open>xs[i]\<close> for a non-negative index \<open>i\<close>: IndexError out of range.\<close>

definition py_index :: "'a list \<Rightarrow> nat \<Rightarrow> py_error + 'a" where
  "py_index xs i = (if i < length xs then Inr (xs ! i) else Inl IndexError)"

text \<open>
  Sequencing of computations that may raise: the first exception ends the computation.
  \<open>py_name\<close> reads a global name that may be unbound, \<open>py_str\<close> uses a value that
  may be None where a string is needed.
\<close>

definition py_bind :: "py_error + 'a \<Rightarrow> ('a \<Rightarrow> py_error + 'b) \<Rightarrow> py_error + 'b" where
  "py_bind m f = (case m of Inl e \<Rightarrow> Inl e | Inr x \<Rightarrow> f x)"

definition py_name :: "string \<Rightarrow> 'a option \<Rightarrow> py_error + 'a" where
  "py_name n v = (case v of None \<Rightarrow> Inl (NameError n) | Some x \<Rightarrow> Inr x)"

definition py_str :: "string option \<Rightarrow> py_error + string" where
  "py_str v = (case v of None \<Rightarrow> Inl TypeError | Some x \<Rightarrow> Inr x)"

text \<open>
  Slices with non-negative bounds never raise: \<open>s[a:b]\<close> keeps what is there.
  \<open>s[a:]\<close> is \<open>drop a s\<close>.
\<close>

definition py_slice :: "nat \<Rightarrow> nat \<Rightarrow> string \<Rightarrow> string" where
  "py_slice a b s = take (b - a) (drop a s)"

text \<open>\<open>s.split(c)\<close> for a separator of one character.\<close>

fun split_on :: "char \<Rightarrow> string \<Rightarrow> string list" where
  "split_on c [] = [[]]"
| "split_on c (x # xs) =
     (if x = c then [] # split_on c xs
      else (case split_on c xs of [] \<Rightarrow> [[x]] | w # ws \<Rightarrow> (x # w) # ws))"

text \<open>
  \<open>s.strip()\<close> removes whitespace at both ends and \<open>s.strip(cs)\<close> the characters
  of \<open>cs\<close>. The whitespace characters with a code point below 256 are listed.
\<close>

definition is_space :: "char \<Rightarrow> bool" where
  "is_space c = ((of_char c :: nat) \<in> {9, 10, 11, 12, 13, 28, 29, 30, 31, 32, 133, 160})"

definition py_strip :: "(char \<Rightarrow> bool) \<Rightarrow> string \<Rightarrow> string" where
  "py_strip p s = rev (dropWhile p (rev (dropWhile p s)))"

text \<open>
  \<open>s.replace(old, new)\<close>: every occurrence of \<open>old\<close>, found from the left without
  overlap, becomes \<open>new\<close>; an empty \<open>old\<close> matches before every character and at
  the end.
\<close>

function replace_str :: "string \<Rightarrow> string \<Rightarrow> string \<Rightarrow> string" where
  "replace_str old new s =
     (if old = [] then new @ concat (map (\<lambda>c. c # new) s)
      else if s = [] then []
      else if take (length old) s = old
           then new @ replace_str old new (drop (length old) s)
           else hd s # replace_str old new (tl s))"
  by pat_completeness auto
termination
  by (relation "measure (\<lambda>(old, new, s). length s)") auto

declare replace_str.simps [simp del]

text \<open>\<open>d[k]\<close> on a dictionary held as an association list: KeyError when absent.\<close>

definition py_lookup :: "(string \<times> 'v) list \<Rightarrow> string \<Rightarrow> py_error + 'v" where
  "py_lookup d k = (case map_of d k of None \<Rightarrow> Inl (KeyError k) | Some v \<Rightarrow> Inr v)"

text \<open>
  A \<open>collections.Counter\<close> held as an association list: a missing key counts 0, and
  \<open>c[k] += 1\<close> stores the old count plus one, at the key's place when it is there and
  at the end otherwise.
\<close>

definition counter_get :: "(string \<times> nat) list \<Rightarrow> string \<Rightarrow> nat" where
  "counter_get c k = (case map_of c k of None \<Rightarrow> 0 | Some n \<Rightarrow> n)"

definition counter_incr :: "string \<Rightarrow> (string \<times> nat) list \<Rightarrow> (string \<times> nat) list" where
  "counter_incr k c = AList.update k (counter_get c k + 1) c"

text \<open>Truth value of an optional command-line string: None and the empty string are false.\<close>

fun truthy :: "string option \<Rightarrow> bool" where
  "truthy None = False"
| "truthy (Some s) = (s \<noteq> [])"

subsection \<open>Edit distance\<close>

text \<open>
  Modelled from the spec: \<open>lev.distance\<close> belongs to the Levenshtein package, which the
  script imports and the repository does not contain. It is the Levenshtein distance,
  where a substitution, an insertion and a deletion cost 1 each.
\<close>

fun lev_distance :: "string \<Rightarrow> string \<Rightarrow> nat" where
  "lev_distance [] ys = length ys"
| "lev_distance (x # xs) [] = Suc (length xs)"
| "lev_distance (x # xs) (y # ys) =
     min (min (lev_distance xs (y # ys) + 1) (lev_distance (x # xs) ys + 1))
         (lev_distance xs ys + (if x = y then 0 else 1))"

subsection \<open>FASTQ sanity check\<close>

text \<open>
  \<open>fastq_check(infile)\<close>: the first four lines of the file are sliced off, then
  \<open>read[0][0]\<close>, \<open>read[2][0]\<close>, \<open>len(read[1])\<close> and \<open>len(read[3])\<close> are read in
  this order; \<open>success\<close> starts as True and each failed test sets it to False.
\<close>

definition fastq_check :: "(string \<Rightarrow> string) \<Rightarrow> string \<Rightarrow> py_error + bool" where
  "fastq_check fs infile =
     (let read = take 4 (py_lines (fs infile)) in
      py_bind (py_index read 0) (\<lambda>l0.
      py_bind (py_index l0 0) (\<lambda>c0.
      let success1 = (if \<not> c0 = CHR ''@'' then False else True) in
      py_bind (py_index read 2) (\<lambda>l2.
      py_bind (py_index l2 0) (\<lambda>c2.
      let success2 = (if \<not> c2 = CHR ''+'' then False else success1) in
      py_bind (py_index read 1) (\<lambda>l1.
      py_bind (py_index read 3) (\<lambda>l3.
      let success3 = (if \<not> length l1 = length l3 then False else success2) in
      Inr success3)))))))"

subsection \<open>Start-up checks (module level)\<close>

record inputargs =
  read1 :: string
  read2 :: string
  index1 :: string
  index2 :: "string option"
  indexlist :: "string option"
  threshold :: int
  outputall :: bool
  extension :: string

text \<open>
  The loop over \<open>[read1, read2, index1]\<close>: the first file whose check returns False
  ends the process with \<open>sys.exit()\<close>.
\<close>

fun check_files :: "(string \<Rightarrow> string) \<Rightarrow> string list \<Rightarrow> py_error + unit" where
  "check_files fs [] = Inr ()"
| "check_files fs (f # rest) =
     py_bind (fastq_check fs f) (\<lambda>ok.
       if ok = False then Inl SystemExit else check_files fs rest)"

definition startup_checks :: "(string \<Rightarrow> string) \<Rightarrow> inputargs \<Rightarrow> py_error + unit" where
  "startup_checks fs a =
     (if outputall a = False \<and> \<not> truthy (indexlist a) then Inl SystemExit
      else check_files fs [read1 a, read2 a, index1 a])"

subsection \<open>Index dictionaries\<close>

definition X1dict :: "(string \<times> string) list" where
  "X1dict =
    [(''1'', ''ATCACG''), (''2'', ''CGATGT''), (''3'', ''TTAGGC''), (''4'', ''TGACCA''),
     (''5'', ''ACAGTG''), (''6'', ''GCCAAT''), (''7'', ''CAGATC''), (''8'', ''ACTTGA''),
     (''9'', ''GATCAG''), (''10'', ''TAGCTT''), (''11'', ''GGCTAC''), (''12'', ''CTTGTA''),
     (''13'', ''TAGACT'')]"

definition X2dict :: "(string \<times> string) list" where
  "X2dict =
    [(''1'', ''CGTGAT''), (''2'', ''ACATCG''), (''3'', ''GCCTAA''), (''4'', ''TGGTCA''),
     (''5'', ''CACTGT''), (''6'', ''ATTGGC''), (''7'', ''GATCTG''), (''8'', ''TCAAGT''),
     (''9'', ''CTGATC''), (''10'', ''AAGCTA''), (''11'', ''GTAGCC''), (''12'', ''TACAAG''),
     (''13'', ''TTGACT''), (''14'', ''GGAACT''), (''15'', ''CCTGGTAG''),
     (''16'', ''TAAGCATG''), (''17'', ''AGATGTGC''), (''18'', ''GTCGAGCA''),
     (''19'', ''GAATTGCT''), (''20'', ''AAGCAACT''), (''21'', ''CTAACTGG''),
     (''22'', ''AGGCTCAA''), (''23'', ''CAGTTGGT''), (''24'', ''TCTGGACC''),
     (''25'', ''TGTTATAC''), (''26'', ''TCAGCGAA''), (''27'', ''ACATAGCG''),
     (''28'', ''TGTGCTTA''), (''29'', ''GATGTTAC''), (''30'', ''GTCTTAGT''),
     (''31'', ''GAGTTACA''), (''32'', ''CCATTGTT''), (''33'', ''TGCGAAGG''),
     (''34'', ''CAACGGTC''), (''35'', ''CTTGCAGA''), (''36'', ''AGGATGTG''),
     (''37'', ''TAGATCCT''), (''38'', ''TAGATGAC''), (''39'', ''CTAGGTTC''),
     (''40'', ''GTGCGTAA''), (''41'', ''TCGCACCT''), (''42'', ''CGATCATG''),
     (''43'', ''GTTGCGGC''), (''44'', ''AGATATAA''), (''45'', ''CGCCACAG''),
     (''46'', ''AATGCGTT''), (''47'', ''GTCAAGTT''), (''48'', ''GGAAGGCG''),
     (''49'', ''TCCTGGTC''), (''50'', ''ACCAAGGA''), (''51'', ''AGTGTCTT''),
     (''52'', ''GATTACAG''), (''53'', ''ACTTCTTC''), (''54'', ''GTTCATTA''),
     (''55'', ''TTGCTGGA''), (''56'', ''CTGTGGAC''), (''57'', ''GACTATTG''),
     (''58'', ''CCTTACCT''), (''59'', ''GCTAAGTA''), (''60'', ''CTTCCTTC''),
     (''61'', ''TCGCTATG''), (''62'', ''CAGACAAT''), (''63'', ''GAGAGTTG''),
     (''64'', ''CCTAGAAT''), (''65'', ''CAGCAGCA''), (''66'', ''GGCTAGGC''),
     (''67'', ''GGCATAGG''), (''68'', ''GACGCTAT''), (''69'', ''ATCCGACA''),
     (''70'', ''TTACTGTC''), (''71'', ''TCGACGGC''), (''72'', ''CCTGGATA''),
     (''73'', ''AACATAAT''), (''74'', ''AATGTTGG''), (''75'', ''TGGATATC''),
     (''76'', ''TACTTGCA''), (''77'', ''AGAACATT''), (''78'', ''TACCGCTG''),
     (''79'', ''AGAGGAAT''), (''80'', ''ATCCGCAG''), (''81'', ''CATCAGAC''),
     (''82'', ''GGCAGATA''), (''83'', ''GATCGTGT''), (''84'', ''AGCTCTGG''),
     (''85'', ''GTTAGGTC''), (''86'', ''CAAGGCGA''), (''87'', ''ATGGTAGG''),
     (''88'', ''TCTAGCGA''), (''89'', ''ACATCCTT''), (''90'', ''CGAGTTAG''),
     (''91'', ''ATACCTGT''), (''92'', ''GACCGAGA''), (''93'', ''TCAACTGT''),
     (''94'', ''ACGCATAG''), (''95'', ''GGCTCCTG''), (''96'', ''TGCGACCT''),
     (''97'', ''CCTTGCTG''), (''98'', ''TTGATAAT''), (''99'', ''CTGATTAA''),
     (''100'', ''TGGTAACG''), (''101'', ''CTCTACTT''), (''102'', ''CTATTCAA'')]"

subsection \<open>Sample tables\<close>

text \<open>
  A dictionary value of \<open>XXdict\<close> and \<open>XXdict1\<close> is either a file name (a string) or
  an open file object, named here by the path it was opened with.
\<close>

datatype dest = Path string | Handle string

type_synonym index_tables =
  "(string \<times> dest) list \<times> (string \<times> nat) list \<times> (string \<times> string) list"

text \<open>
  The loop of \<open>read_index_single_file\<close> over the lines of the index list; the triple
  is \<open>(XXdict, outputreads, usedindexes)\<close>.
\<close>

fun read_index_single_loop :: "string \<Rightarrow> string list \<Rightarrow> index_tables \<Rightarrow> py_error + index_tables" where
  "read_index_single_loop suffix [] tabs = Inr tabs"
| "read_index_single_loop suffix (x # rest) (XXd, outr, used) =
     (if x = ''\<newline>'' then Inr (XXd, outr, used)
      else
        let elements = split_on CHR '','' (py_strip (\<lambda>c. c = CHR 0x0A) x) in
        py_bind (py_index elements 0) (\<lambda>sample.
        py_bind (py_index elements 1) (\<lambda>e1.
        py_bind (py_lookup X1dict e1) (\<lambda>x1.
        py_bind (py_index elements 2) (\<lambda>e2.
        py_bind (py_lookup X2dict e2) (\<lambda>x2.
        let compound_index = x1 @ x2 in
        read_index_single_loop suffix rest
          (AList.update compound_index (Handle (sample @ suffix)) XXd,
           AList.update sample 0 outr,
           AList.update sample compound_index used)))))))"

text \<open>
  Modelled from the spec: \<open>revcomp(x)\<close> is \<open>str(Seq(x).reverse_complement())\<close> of
  Biopython, which the script imports and the repository does not contain. It is the
  sequence read backwards with each base replaced by its Watson-Crick complement
  (A with T, C with G), any other character left as it is. The table reader below
  takes the function as a parameter; this definition stands for it on concrete inputs.
\<close>

definition complement :: "char \<Rightarrow> char" where
  "complement c =
     (if c = CHR ''A'' then CHR ''T'' else if c = CHR ''T'' then CHR ''A''
      else if c = CHR ''C'' then CHR ''G'' else if c = CHR ''G'' then CHR ''C'' else c)"

definition reverse_complement :: "string \<Rightarrow> string" where
  "reverse_complement x = rev (map complement x)"

text \<open>
  The loop of \<open>read_index_dual_file\<close>; the triple is
  \<open>(XXdict1, outputreads, usedindexes)\<close>. \<open>revcomp\<close> wraps Biopython's
  \<open>Seq.reverse_complement\<close>, which is not part of the repository: it is a parameter.
\<close>

fun read_index_dual_loop ::
  "(string \<Rightarrow> string) \<Rightarrow> string \<Rightarrow> string list \<Rightarrow> index_tables \<Rightarrow> py_error + index_tables" where
  "read_index_dual_loop revcomp suffix [] tabs = Inr tabs"
| "read_index_dual_loop revcomp suffix (line # rest) (XXd, outr, used) =
     (if line = ''\<newline>'' then Inr (XXd, outr, used)
      else
        let elements = map (py_strip is_space) (split_on CHR '','' line) in
        py_bind (py_index elements 0) (\<lambda>sample.
        py_bind (py_index elements 1) (\<lambda>e1.
        let i1 = revcomp e1 in
        py_bind (py_index elements 2) (\<lambda>i2.
        let compound_index = i2 @ i1 in
        read_index_dual_loop revcomp suffix rest
          (AList.update compound_index (Path (sample @ ''_R1'' @ suffix)) XXd,
           AList.update sample 0 outr,
           AList.update sample compound_index used)))))"

text \<open>
  Both functions start from \<open>outputreads["Undetermined"] = 0\<close> and empty
  dictionaries, and read the file named by \<open>inputargs["indexlist"]\<close>
  (\<open>open(None)\<close> is a TypeError).
\<close>

definition read_index_single_file :: "(string \<Rightarrow> string) \<Rightarrow> inputargs \<Rightarrow> py_error + index_tables" where
  "read_index_single_file fs a =
     (let suffix = ''.'' @ extension a in
      py_bind (py_str (indexlist a)) (\<lambda>p.
        read_index_single_loop suffix (py_lines (fs p)) ([], [(''Undetermined'', 0)], [])))"

definition read_index_dual_file ::
  "(string \<Rightarrow> string) \<Rightarrow> (string \<Rightarrow> string) \<Rightarrow> inputargs \<Rightarrow> py_error + index_tables" where
  "read_index_dual_file fs revcomp a =
     (let suffix = ''.'' @ extension a in
      py_bind (py_str (indexlist a)) (\<lambda>p.
        read_index_dual_loop revcomp suffix (py_lines (fs p)) ([], [(''Undetermined'', 0)], [])))"

subsection \<open>Global state of the script\<close>

text \<open>
  The module-level variables that the main loop reads and writes. A name that may be
  unbound when it is read is an option, None standing for "not bound" (NameError on
  use). \<open>failed\<close>, \<open>failed1\<close> and \<open>failed2\<close> are file objects opened once for
  writing: the field holds the text written to them. \<open>appended\<close> holds, for every
  path opened through \<open>open(path, "a")\<close>, the text appended to it, in the order
  in which the paths were first opened.
\<close>

record state =
  XXdict :: "(string \<times> dest) list option"
  XXdict1 :: "(string \<times> dest) list option"
  outputreads :: "(string \<times> nat) list option"
  usedindexes :: "(string \<times> string) list option"
  failed :: "string option"
  failed1 :: "string option"
  failed2 :: "string option"
  new_record :: "string option"
  new_record1 :: "string option"
  new_record2 :: "string option"
  appended :: "(string \<times> string) list"
  count :: nat
  dmpd_count :: nat
  fuzzy_count :: nat
  clash_count :: nat
  fuzzies :: "string list"

definition initial_state :: state where
  "initial_state =
     \<lparr>XXdict = None, XXdict1 = None, outputreads = None, usedindexes = None,
      failed = None, failed1 = None, failed2 = None,
      new_record = None, new_record1 = None, new_record2 = None,
      appended = [], count = 0, dmpd_count = 0, fuzzy_count = 0, clash_count = 0,
      fuzzies = []\<rparr>"

subsection \<open>Building the sample tables (module level)\<close>

definition allXcombs :: "string list" where
  "allXcombs = concat (map (\<lambda>x. map (\<lambda>y. x @ ''-'' @ y) (map fst X2dict)) (map fst X1dict))"

text \<open>The loop of the "output all" block over \<open>allXcombs\<close>.\<close>

fun outputall_loop :: "string \<Rightarrow> string list \<Rightarrow> state \<Rightarrow> py_error + state" where
  "outputall_loop suffix [] g = Inr g"
| "outputall_loop suffix (x # rest) g =
     py_bind (py_index (split_on CHR ''-'' x) 0) (\<lambda>k1.
     py_bind (py_lookup X1dict k1) (\<lambda>x1.
     py_bind (py_index (split_on CHR ''-'' x) 1) (\<lambda>k2.
     py_bind (py_lookup X2dict k2) (\<lambda>x2.
     let compound_index = x1 @ x2 in
     py_bind (py_name ''usedindexes'' (usedindexes g)) (\<lambda>used.
     if compound_index \<notin> set (map snd used) then
       py_bind (py_name ''XXdict1'' (XXdict1 g)) (\<lambda>XXd.
       py_bind (py_name ''outputreads'' (outputreads g)) (\<lambda>outr.
       outputall_loop suffix rest
         (g\<lparr>XXdict1 := Some (AList.update compound_index (Handle (''Indexes_'' @ x @ suffix)) XXd),
            outputreads := Some (AList.update (''Indexes_'' @ x) 0 outr),
            usedindexes := Some (AList.update (''Indexes_'' @ x) compound_index used)\<rparr>)))
     else outputall_loop suffix rest g)))))"

text \<open>
  Lines 511 to 546: with an index list the tables are read, by
  \<open>read_index_dual_file\<close> when a second index file is given and by
  \<open>read_index_single_file\<close> otherwise; then the "output all" block runs when asked for.
\<close>

definition read_tables ::
  "(string \<Rightarrow> string) \<Rightarrow> (string \<Rightarrow> string) \<Rightarrow> inputargs \<Rightarrow> py_error + state" where
  "read_tables fs revcomp a =
     (if truthy (indexlist a) then
        if truthy (index2 a) then
          py_bind (read_index_dual_file fs revcomp a) (\<lambda>(XXd, outr, used).
            Inr (initial_state\<lparr>XXdict1 := Some XXd, outputreads := Some outr,
                   usedindexes := Some used, failed1 := Some [], failed2 := Some []\<rparr>))
        else
          py_bind (read_index_single_file fs a) (\<lambda>(XXd, outr, used).
            Inr (initial_state\<lparr>XXdict := Some XXd, outputreads := Some outr,
                   usedindexes := Some used, failed := Some []\<rparr>))
      else Inr initial_state)"

definition build_tables ::
  "(string \<Rightarrow> string) \<Rightarrow> (string \<Rightarrow> string) \<Rightarrow> inputargs \<Rightarrow> py_error + state" where
  "build_tables fs revcomp a =
     py_bind (read_tables fs revcomp a) (\<lambda>g.
       if outputall a = True then outputall_loop (''.'' @ extension a) allXcombs g
       else Inr g)"

subsection \<open>Reading records\<close>

text \<open>
  \<open>readfq(fp)\<close> is a generator over the lines of a file; the model returns the list
  of the records it yields, each an identifier, a sequence and a quality or None.
  Its three inner loops over \<open>fp\<close> are \<open>find_header\<close>, \<open>read_seqs\<close> and
  \<open>read_qual\<close>, each returning the lines it has not consumed. A line of a file is
  never empty, so \<open>l[0]\<close> is always there; \<open>l[:-1]\<close> is \<open>butlast l\<close>.
\<close>

type_synonym fq_record = "string \<times> string \<times> string option"

fun find_header :: "string list \<Rightarrow> (string \<times> string list) option" where
  "find_header [] = None"
| "find_header (l # fp) =
     (if hd l \<in> set ''>@'' then Some (butlast l, fp) else find_header fp)"

fun read_seqs :: "string list \<Rightarrow> string list \<Rightarrow> string list \<times> string option \<times> string list" where
  "read_seqs seqs [] = (seqs, None, [])"
| "read_seqs seqs (l # fp) =
     (if hd l \<in> set ''@+>'' then (seqs, Some (butlast l), fp)
      else read_seqs (seqs @ [butlast l]) fp)"

fun read_qual ::
  "nat \<Rightarrow> nat \<Rightarrow> string list \<Rightarrow> string list \<Rightarrow> (string list \<times> string list) option" where
  "read_qual n leng seqs [] = None"
| "read_qual n leng seqs (l # fp) =
     (if leng + (length l - 1) \<ge> n then Some (seqs @ [butlast l], fp)
      else read_qual n (leng + (length l - 1)) (seqs @ [butlast l]) fp)"

text \<open>
  The head of the \<open>while\<close> loop: with no buffered line the next header is searched,
  and the generator ends when there is none (or when it is empty after \<open>l[:-1]\<close>).
\<close>

definition next_header :: "string option \<Rightarrow> string list \<Rightarrow> (string \<times> string list) option" where
  "next_header last' fp =
     (case (if \<not> truthy last'
            then (case find_header fp of None \<Rightarrow> (last', []) | Some (h, rest) \<Rightarrow> (Some h, rest))
            else (last', fp)) of
        (None, fp1) \<Rightarrow> None
      | (Some h, fp1) \<Rightarrow> if h = [] then None else Some (h, fp1))"

function readfq_loop :: "string option \<Rightarrow> string list \<Rightarrow> fq_record list" where
  "readfq_loop last' fp =
     (case next_header last' fp of
        None \<Rightarrow> []
      | Some (h, fp1) \<Rightarrow>
          (let name = takeWhile (\<lambda>c. c \<noteq> CHR '' '') (drop 1 h) in
           case read_seqs [] fp1 of (seqs, nxt, fp2) \<Rightarrow>
             (case nxt of
                None \<Rightarrow> [(name, concat seqs, None)]
              | Some n \<Rightarrow>
                  if n = [] then [(name, concat seqs, None)]
                  else if hd n \<noteq> CHR ''+''
                  then (name, concat seqs, None) # readfq_loop (Some n) fp2
                  else (case read_qual (length (concat seqs)) 0 [] fp2 of
                          Some (quals, fp3) \<Rightarrow>
                            (name, concat seqs, Some (concat quals)) # readfq_loop None fp3
                        | None \<Rightarrow> [(name, concat seqs, None)]))))"
  by pat_completeness auto
termination
proof (relation "measure (\<lambda>(last', fp). length fp)")
  have fh: "find_header fp = Some (h, rest) \<Longrightarrow> length rest < length fp" for fp h rest
    by (induction fp) (auto split: if_splits)
  have nh: "next_header last' fp = Some (h, fp1) \<Longrightarrow> length fp1 \<le> length fp"
    for last' fp h fp1
    by (auto simp: next_header_def split: if_splits option.splits dest: fh)
  have rs: "read_seqs seqs fp = (seqs', Some n, rest) \<Longrightarrow> length rest < length fp"
    for seqs fp seqs' n rest
    by (induction seqs fp rule: read_seqs.induct) (auto split: if_splits)
  have rsle: "read_seqs seqs fp = (seqs', l, rest) \<Longrightarrow> length rest \<le> length fp"
    for seqs fp seqs' l rest
    by (induction seqs fp rule: read_seqs.induct) (auto split: if_splits)
  have rq: "read_qual n leng seqs fp = Some (quals, rest) \<Longrightarrow> length rest < length fp"
    for n leng seqs fp quals rest
    by (induction n leng seqs fp rule: read_qual.induct) (auto split: if_splits)
  show "wf (measure (\<lambda>(last', fp). length fp))" by simp
  show "((Some n, fp2), last', fp) \<in> measure (\<lambda>(last', fp). length fp)"
    if "next_header last' fp = Some x" "(h, fp1) = x" "(seqs, y) = read_seqs [] fp1"
      "(nxt, fp2) = y" "nxt = Some n"
    for last' fp x h fp1 seqs y nxt fp2 n
    using that nh [of last' fp h fp1] rs [of "[]" fp1 seqs n fp2] by auto
  show "((None, fp3), last', fp) \<in> measure (\<lambda>(last', fp). length fp)"
    if "next_header last' fp = Some x" "(h, fp1) = x" "(seqs, y) = read_seqs [] fp1"
      "(nxt, fp2) = y" "read_qual (length (concat seqs)) 0 [] fp2 = Some z" "(quals, fp3) = z"
    for last' fp x h fp1 seqs y nxt fp2 z quals fp3
    using that nh [of last' fp h fp1] rsle [of "[]" fp1 seqs nxt fp2]
      rq [of "length (concat seqs)" 0 "[]" fp2 quals fp3] by auto
qed

declare readfq_loop.simps [simp del]

definition readfq :: "string \<Rightarrow> fq_record list" where
  "readfq text = readfq_loop None (py_lines text)"

subsection \<open>The main loop\<close>

text \<open>
  One element of \<open>zipfqs\<close> is a tuple of three records, or of four when a second
  index file is given.
\<close>

datatype records =
    Three fq_record fq_record fq_record
  | Four fq_record fq_record fq_record fq_record

text \<open>
  Lines 619 to 673, "formatting output read": the result is \<open>fq_id\<close>, \<open>seqX\<close> and
  the state with the record strings bound. Slicing or concatenating a quality that
  is None is a TypeError.
\<close>

fun format_read :: "records \<Rightarrow> state \<Rightarrow> py_error + (string \<times> string \<times> state)" where
  "format_read (Three record1 record2 record3) s =
     (let fq_id = fst record1;
          Nseq = py_slice 0 45 (fst (snd record3)) in
      py_bind (py_str (snd (snd record3))) (\<lambda>q3.
      let Nqual = py_slice 0 45 q3;
          X1seq = py_slice 6 12 (fst (snd record1)) in
      py_bind (py_str (snd (snd record1))) (\<lambda>q1.
      let X1qual = py_slice 6 12 q1;
          X2seq = fst (snd record2);
          X2qual = snd (snd record2);
          readseq = drop 12 (fst (snd record1));
          readqual = drop 12 q1;
          fq_seq = Nseq @ X1seq @ X2seq @ readseq in
      py_bind (py_str X2qual) (\<lambda>q2.
      let fq_qual = Nqual @ X1qual @ q2 @ readqual;
          nr = ''@'' @ fq_id @ ''\<newline>'' @ fq_seq @ ''\<newline>+\<newline>'' @ fq_qual @ ''\<newline>'';
          seqX = X1seq @ X2seq
      in Inr (fq_id, seqX, s\<lparr>new_record := Some nr\<rparr>)))))"
| "format_read (Four record1 record2 record3 record4) s =
     (let fq_id = fst record1;
          X1seq = fst (snd record4);
          X2seq = fst (snd record2) in
      py_bind (py_str (snd (snd record1))) (\<lambda>q1.
      let nr1 = ''@'' @ fq_id @ ''\<newline>'' @ fst (snd record1) @ ''\<newline>+\<newline>'' @ q1 @ ''\<newline>'' in
      py_bind (py_str (snd (snd record3))) (\<lambda>q3.
      let nr2 = ''@'' @ fq_id @ ''\<newline>'' @ fst (snd record3) @ ''\<newline>+\<newline>'' @ q3 @ ''\<newline>'';
          seqX = X1seq @ X2seq
      in Inr (fq_id, seqX, s\<lparr>new_record1 := Some nr1, new_record2 := Some nr2\<rparr>))))"

text \<open>
  The decision of lines 678 to 721 on its own: a key of the dictionary is an exact
  match; otherwise the keys within the threshold are collected in \<open>matches\<close>, one
  candidate is a fuzzy match, several are a clash, none is no match. \<open>lev\<close> stands
  for \<open>lev.distance\<close>, and the outcome names the dictionary value of the matched key.
\<close>

datatype outcome = Exact dest | Fuzzy dest | Ambiguous nat | Unmatched

definition fuzzy_matches ::
  "(string \<Rightarrow> string \<Rightarrow> nat) \<Rightarrow> int \<Rightarrow> string \<Rightarrow> (string \<times> dest) list \<Rightarrow> string list" where
  "fuzzy_matches lev t seqX XXd = filter (\<lambda>ndx. int (lev ndx seqX) \<le> t) (map fst XXd)"

definition classify ::
  "(string \<Rightarrow> string \<Rightarrow> nat) \<Rightarrow> int \<Rightarrow> string \<Rightarrow> (string \<times> dest) list \<Rightarrow> py_error + outcome" where
  "classify lev t seqX XXd =
     (if seqX \<in> set (map fst XXd) then
        py_bind (py_lookup XXd seqX) (\<lambda>d. Inr (Exact d))
      else
        let matches = fuzzy_matches lev t seqX XXd in
        if length matches = 1 then
          py_bind (py_lookup XXd (matches ! 0)) (\<lambda>d. Inr (Fuzzy d))
        else if length matches > 1 then Inr (Ambiguous (length matches))
        else Inr Unmatched)"

text \<open>
  Writing a matched read: \<open>open(d, "a")\<close> needs a file name (a file object is a
  TypeError); \<open>new_record1\<close> goes to that file and \<open>new_record2\<close> to the file named
  by replacing \<open>"R1.f"\<close> with \<open>"R2.f"\<close>. The result is the file name and the state.
\<close>

definition append_file ::
  "string \<Rightarrow> string \<Rightarrow> (string \<times> string) list \<Rightarrow> (string \<times> string) list" where
  "append_file p txt files =
     AList.update p ((case map_of files p of None \<Rightarrow> [] | Some old \<Rightarrow> old) @ txt) files"

definition py_open :: "dest \<Rightarrow> py_error + string" where
  "py_open d = (case d of Handle h \<Rightarrow> Inl TypeError | Path p \<Rightarrow> Inr p)"

definition write_sample :: "dest \<Rightarrow> state \<Rightarrow> py_error + (string \<times> state)" where
  "write_sample d s =
     py_bind (py_open d) (\<lambda>p.
     py_bind (py_name ''new_record1'' (new_record1 s)) (\<lambda>nr1.
     py_bind (py_name ''new_record2'' (new_record2 s)) (\<lambda>nr2.
     Inr (p, s\<lparr>appended := append_file (replace_str ''R1.f'' ''R2.f'' p) nr2
                              (append_file p nr1 (appended s))\<rparr>))))"

text \<open>\<open>outputreads[k] += 1\<close> for a file name or \<open>"Undetermined"\<close>.\<close>

definition count_output :: "string \<Rightarrow> state \<Rightarrow> py_error + state" where
  "count_output k s =
     py_bind (py_name ''outputreads'' (outputreads s)) (\<lambda>outr.
     Inr (s\<lparr>outputreads := Some (counter_incr k outr)\<rparr>))"

text \<open>
  Lines 724 to 726: the read goes to the Undetermined files through \<open>failed1\<close> and
  \<open>failed2\<close>.
\<close>

definition write_failed :: "state \<Rightarrow> py_error + state" where
  "write_failed s =
     py_bind (py_name ''failed1'' (failed1 s)) (\<lambda>f1.
     py_bind (py_name ''new_record1'' (new_record1 s)) (\<lambda>nr1.
     py_bind (py_name ''failed2'' (failed2 s)) (\<lambda>f2.
     py_bind (py_name ''new_record2'' (new_record2 s)) (\<lambda>nr2.
     count_output ''Undetermined'' (s\<lparr>failed1 := Some (f1 @ nr1), failed2 := Some (f2 @ nr2)\<rparr>)))))"

text \<open>
  Lines 678 to 726, "demultiplexing", in the order of the source: exact match, else
  the fan-out over the keys, a single candidate, else the Undetermined branch with
  the clash counter.
\<close>

definition demultiplex_read ::
  "(string \<Rightarrow> string \<Rightarrow> nat) \<Rightarrow> int \<Rightarrow> string \<Rightarrow> string \<Rightarrow> state \<Rightarrow> py_error + state" where
  "demultiplex_read lev t fq_id seqX s =
     py_bind (py_name ''XXdict1'' (XXdict1 s)) (\<lambda>XXd.
     if seqX \<in> set (map fst XXd) then
       py_bind (py_lookup XXd seqX) (\<lambda>d.
       py_bind (write_sample d s) (\<lambda>(p, s1).
       count_output p (s1\<lparr>dmpd_count := dmpd_count s1 + 1\<rparr>)))
     else
       let matches = fuzzy_matches lev t seqX XXd in
       if length matches = 1 then
         py_bind (py_lookup XXd (matches ! 0)) (\<lambda>d.
         py_bind (write_sample d s) (\<lambda>(p, s1).
         count_output p (s1\<lparr>dmpd_count := dmpd_count s1 + 1,
                             fuzzy_count := fuzzy_count s1 + 1,
                             fuzzies := fuzzies s1 @ [fq_id]\<rparr>)))
       else
         write_failed (if length matches > 1
                       then s\<lparr>clash_count := clash_count s + 1\<rparr> else s))"

text \<open>One iteration of the loop over \<open>zipfqs\<close>, and the loop.\<close>

definition loop_body ::
  "(string \<Rightarrow> string \<Rightarrow> nat) \<Rightarrow> int \<Rightarrow> records \<Rightarrow> state \<Rightarrow> py_error + state" where
  "loop_body lev t recs s =
     py_bind (format_read recs (s\<lparr>count := count s + 1\<rparr>)) (\<lambda>(fq_id, seqX, s1).
       demultiplex_read lev t fq_id seqX s1)"

fun demultiplex_loop ::
  "(string \<Rightarrow> string \<Rightarrow> nat) \<Rightarrow> int \<Rightarrow> records list \<Rightarrow> state \<Rightarrow> py_error + state" where
  "demultiplex_loop lev t [] s = Inr s"
| "demultiplex_loop lev t (recs # rest) s =
     py_bind (loop_body lev t recs s) (\<lambda>s1. demultiplex_loop lev t rest s1)"

text \<open>
  Lines 567 to 595: \<open>fq1\<close>, \<open>fq2\<close> and \<open>fq3\<close> read the files read1, index1 and
  read2, and \<open>fq4\<close> the file index2 when it is given; \<open>zipfqs\<close> is
  \<open>zip(fq1, fq2, fq3, fq4)\<close> with a second index file and \<open>zip(fq1, fq2, fq3)\<close>
  without.
\<close>

definition zipfqs :: "(string \<Rightarrow> string) \<Rightarrow> inputargs \<Rightarrow> records list" where
  "zipfqs fs a =
     (let fq1 = readfq (fs (read1 a));
          fq2 = readfq (fs (index1 a));
          fq3 = readfq (fs (read2 a))
      in case index2 a of
           None \<Rightarrow> map (\<lambda>(r1, r2, r3). Three r1 r2 r3) (zip fq1 (zip fq2 fq3))
         | Some i2 \<Rightarrow>
             if i2 \<noteq> []
             then map (\<lambda>(r1, r2, r3, r4). Four r1 r2 r3 r4)
                    (zip fq1 (zip fq2 (zip fq3 (readfq (fs i2)))))
             else map (\<lambda>(r1, r2, r3). Three r1 r2 r3) (zip fq1 (zip fq2 fq3)))"

text \<open>The script from its first line to the end of the main loop.\<close>

definition run ::
  "(string \<Rightarrow> string) \<Rightarrow> (string \<Rightarrow> string) \<Rightarrow> (string \<Rightarrow> string \<Rightarrow> nat) \<Rightarrow> inputargs \<Rightarrow>
   py_error + state" where
  "run fs revcomp lev a =
     py_bind (startup_checks fs a) (\<lambda>u.
     py_bind (build_tables fs revcomp a) (\<lambda>g.
     demultiplex_loop lev (threshold a) (zipfqs fs a) g))"

section \<open>Properties\<close>

subsection \<open>Lines of a file\<close>

lemma py_lines_nonempty: "l \<in> set (py_lines s) \<Longrightarrow> l \<noteq> []"
  by (induction s arbitrary: l) (auto split: if_splits list.splits)

lemma py_lines_take_nonempty: "i < length (take n (py_lines s)) \<Longrightarrow> take n (py_lines s) ! i \<noteq> []"
  using py_lines_nonempty [of "take n (py_lines s) ! i" s]
  by (metis in_set_takeD nth_mem)

subsection \<open>Dictionaries, counters and filters\<close>

lemma map_of_key: "k \<in> set (map fst xs) \<Longrightarrow> \<exists>d. map_of xs k = Some d"
  by (induction xs) auto

lemma key_of_map_of: "map_of xs k = Some d \<Longrightarrow> k \<in> set (map fst xs)"
  by (induction xs) (auto split: if_splits)

lemma filter_two:
  "k1 \<in> set xs \<Longrightarrow> k2 \<in> set xs \<Longrightarrow> k1 \<noteq> k2 \<Longrightarrow> P k1 \<Longrightarrow> P k2 \<Longrightarrow> 2 \<le> length (filter P xs)"
proof -
  assume a: "k1 \<in> set xs" "k2 \<in> set xs" "k1 \<noteq> k2" "P k1" "P k2"
  have "{k1, k2} \<subseteq> set (filter P xs)" using a by simp
  then have "card {k1, k2} \<le> card (set (filter P xs))"
    by (intro card_mono) auto
  also have "\<dots> \<le> length (filter P xs)" by (rule card_length)
  finally show ?thesis using a(3) by simp
qed



lemma sum_update:
  "sum_list (map snd (AList.update k (v::nat) c)) + (case map_of c k of None \<Rightarrow> 0 | Some n \<Rightarrow> n)
     = sum_list (map snd c) + v"
  by (induction c) auto

lemma counter_incr_sum: "sum_list (map snd (counter_incr k c)) = sum_list (map snd c) + 1"
  using sum_update [of k "counter_get c k + 1" c]
  by (simp add: counter_incr_def counter_get_def)

lemma counter_get_incr:
  "counter_get (counter_incr k c) k' = (if k' = k then counter_get c k + 1 else counter_get c k')"
  by (simp add: counter_incr_def counter_get_def update_conv')

subsection \<open>Distance zero\<close>

lemma lev_distance_zero: "lev_distance a b = 0 \<longleftrightarrow> a = b"
  by (induction a b rule: lev_distance.induct) auto

subsection \<open>The three branches of the step\<close>

text \<open>
  What \<open>demultiplex_read\<close> returns in each branch, for a state in which the names
  that the branch reads are bound.
\<close>

lemma demultiplex_read_exact:
  assumes "XXdict1 s = Some XXd" and "map_of XXd seqX = Some (Path p)"
    and "new_record1 s = Some nr1" and "new_record2 s = Some nr2"
    and "outputreads s = Some outr"
  shows "demultiplex_read lev t fq_id seqX s =
           Inr (s\<lparr>appended := append_file (replace_str ''R1.f'' ''R2.f'' p) nr2
                                (append_file p nr1 (appended s)),
                  dmpd_count := dmpd_count s + 1,
                  outputreads := Some (counter_incr p outr)\<rparr>)"
proof -
  have "seqX \<in> set (map fst XXd)" using assms(2) by (rule key_of_map_of)
  then show ?thesis
    using assms
    by (simp add: demultiplex_read_def py_bind_def py_name_def py_lookup_def py_open_def
        write_sample_def count_output_def)
qed

lemma demultiplex_read_fuzzy:
  assumes "XXdict1 s = Some XXd" and "seqX \<notin> set (map fst XXd)"
    and "fuzzy_matches lev t seqX XXd = [ndx]"
    and "map_of XXd ndx = Some (Path p)"
    and "new_record1 s = Some nr1" and "new_record2 s = Some nr2"
    and "outputreads s = Some outr"
  shows "demultiplex_read lev t fq_id seqX s =
           Inr (s\<lparr>appended := append_file (replace_str ''R1.f'' ''R2.f'' p) nr2
                                (append_file p nr1 (appended s)),
                  dmpd_count := dmpd_count s + 1,
                  fuzzy_count := fuzzy_count s + 1,
                  fuzzies := fuzzies s @ [fq_id],
                  outputreads := Some (counter_incr p outr)\<rparr>)"
  using assms
  by (simp add: demultiplex_read_def py_bind_def py_name_def py_lookup_def py_open_def
      write_sample_def count_output_def)

lemma write_failed_bound:
  assumes "failed1 s = Some f1" and "failed2 s = Some f2"
    and "new_record1 s = Some nr1" and "new_record2 s = Some nr2"
    and "outputreads s = Some outr"
  shows "write_failed s =
           Inr (s\<lparr>failed1 := Some (f1 @ nr1), failed2 := Some (f2 @ nr2),
                  outputreads := Some (counter_incr ''Undetermined'' outr)\<rparr>)"
  using assms by (simp add: write_failed_def py_bind_def py_name_def count_output_def)

lemma demultiplex_read_failed:
  assumes "XXdict1 s = Some XXd" and "seqX \<notin> set (map fst XXd)"
    and "length (fuzzy_matches lev t seqX XXd) \<noteq> 1"
    and "failed1 s = Some f1" and "failed2 s = Some f2"
    and "new_record1 s = Some nr1" and "new_record2 s = Some nr2"
    and "outputreads s = Some outr"
  shows "demultiplex_read lev t fq_id seqX s =
           Inr (s\<lparr>clash_count := (if length (fuzzy_matches lev t seqX XXd) > 1
                                   then clash_count s + 1 else clash_count s),
                  failed1 := Some (f1 @ nr1), failed2 := Some (f2 @ nr2),
                  outputreads := Some (counter_incr ''Undetermined'' outr)\<rparr>)"
proof (cases "length (fuzzy_matches lev t seqX XXd) > 1")
  case True
  have "write_failed (s\<lparr>clash_count := clash_count s + 1\<rparr>) =
          Inr (s\<lparr>clash_count := clash_count s + 1,
                 failed1 := Some (f1 @ nr1), failed2 := Some (f2 @ nr2),
                 outputreads := Some (counter_incr ''Undetermined'' outr)\<rparr>)"
    using assms(4-8) by (simp add: write_failed_bound)
  with True assms(1-3) show ?thesis
    by (simp add: demultiplex_read_def py_bind_def py_name_def)
next
  case False
  with assms show ?thesis
    by (simp add: demultiplex_read_def py_bind_def py_name_def write_failed_bound)
qed

subsection \<open>One iteration on a four-stream tuple\<close>

lemma loop_body_Four:
  "loop_body lev t (Four (id1, seq1, Some q1) (id2, seq2, q2) (id3, seq3, Some q3) (id4, seq4, q4)) s =
     demultiplex_read lev t id1 (seq4 @ seq2)
       (s\<lparr>count := count s + 1,
          new_record1 := Some (''@'' @ id1 @ ''\<newline>'' @ seq1 @ ''\<newline>+\<newline>'' @ q1 @ ''\<newline>''),
          new_record2 := Some (''@'' @ id1 @ ''\<newline>'' @ seq3 @ ''\<newline>+\<newline>'' @ q3 @ ''\<newline>'')\<rparr>)"
  by (simp add: loop_body_def py_bind_def py_str_def)

lemma classify_Exact:
  "classify lev t seqX XXd = Inr (Exact d) \<Longrightarrow> map_of XXd seqX = Some d"
  by (auto simp: classify_def py_bind_def py_lookup_def Let_def split: if_splits option.splits)

lemma classify_Fuzzy:
  assumes "classify lev t seqX XXd = Inr (Fuzzy d)"
  shows "seqX \<notin> set (map fst XXd) \<and>
         (\<exists>ndx. fuzzy_matches lev t seqX XXd = [ndx] \<and> map_of XXd ndx = Some d)"
proof -
  have notkey: "seqX \<notin> set (map fst XXd)"
    using assms
    by (auto simp: classify_def py_bind_def py_lookup_def Let_def split: if_splits option.splits)
  have one: "length (fuzzy_matches lev t seqX XXd) = 1"
    using assms notkey
    by (auto simp: classify_def py_bind_def py_lookup_def Let_def split: if_splits option.splits)
  then obtain ndx where m: "fuzzy_matches lev t seqX XXd = [ndx]"
    by (cases "fuzzy_matches lev t seqX XXd") auto
  have "map_of XXd ndx = Some d"
    using assms notkey m
    by (auto simp: classify_def py_bind_def py_lookup_def Let_def split: if_splits option.splits)
  with notkey m show ?thesis by blast
qed

subsection \<open>What a successful step does to the counters\<close>

lemma count_output_Inr:
  "count_output k s = Inr s' \<Longrightarrow>
     \<exists>outr. outputreads s = Some outr \<and> s' = s\<lparr>outputreads := Some (counter_incr k outr)\<rparr>"
  by (auto simp: count_output_def py_bind_def py_name_def split: option.splits)

lemma write_sample_Inr:
  "write_sample d s = Inr (p, s1) \<Longrightarrow> outputreads s1 = outputreads s \<and> count s1 = count s"
  by (auto simp: write_sample_def py_bind_def py_name_def py_open_def
      split: option.splits dest.splits)

lemma write_failed_Inr:
  assumes "write_failed s = Inr s'"
  shows "\<exists>outr. outputreads s = Some outr \<and>
           outputreads s' = Some (counter_incr ''Undetermined'' outr) \<and> count s' = count s"
proof -
  obtain f1 nr1 f2 nr2 where
    c: "count_output ''Undetermined'' (s\<lparr>failed1 := Some (f1 @ nr1), failed2 := Some (f2 @ nr2)\<rparr>) = Inr s'"
    using assms
    by (auto simp: write_failed_def py_bind_def py_name_def split: option.splits)
  from count_output_Inr [OF c] show ?thesis by auto
qed

lemma format_read_Inr:
  "format_read recs s = Inr (fq_id, seqX, s1) \<Longrightarrow>
     outputreads s1 = outputreads s \<and> count s1 = count s \<and> XXdict1 s1 = XXdict1 s"
  by (cases recs)
     (auto simp: py_bind_def py_str_def Let_def split: option.splits)

lemma demultiplex_read_Inr:
  assumes "demultiplex_read lev t fq_id seqX s = Inr s'"
  shows "\<exists>outr k. outputreads s = Some outr \<and> outputreads s' = Some (counter_incr k outr) \<and>
           count s' = count s"
proof -
  obtain XXd where x: "XXdict1 s = Some XXd"
    using assms by (cases "XXdict1 s") (auto simp: demultiplex_read_def py_bind_def py_name_def)
  let ?m = "fuzzy_matches lev t seqX XXd"
  consider (sample) d p s1 where "write_sample d s = Inr (p, s1)"
      and "count_output p (s1\<lparr>dmpd_count := dmpd_count s1 + 1\<rparr>) = Inr s' \<or>
           count_output p (s1\<lparr>dmpd_count := dmpd_count s1 + 1,
                               fuzzy_count := fuzzy_count s1 + 1,
                               fuzzies := fuzzies s1 @ [fq_id]\<rparr>) = Inr s'"
    | (failed) "write_failed (if length ?m > 1 then s\<lparr>clash_count := clash_count s + 1\<rparr> else s) = Inr s'"
    using assms x
    by (auto simp: demultiplex_read_def py_bind_def py_name_def Let_def
        split: if_splits sum.splits prod.splits)
  then show ?thesis
  proof cases
    case sample
    from write_sample_Inr [OF sample(1)]
    have eq: "outputreads s1 = outputreads s" "count s1 = count s" by simp_all
    from sample(2) show ?thesis
    proof
      assume "count_output p (s1\<lparr>dmpd_count := dmpd_count s1 + 1\<rparr>) = Inr s'"
      from count_output_Inr [OF this] eq show ?thesis by auto
    next
      assume "count_output p (s1\<lparr>dmpd_count := dmpd_count s1 + 1,
                               fuzzy_count := fuzzy_count s1 + 1,
                               fuzzies := fuzzies s1 @ [fq_id]\<rparr>) = Inr s'"
      from count_output_Inr [OF this] eq show ?thesis by auto
    qed
  next
    case failed
    from write_failed_Inr [OF failed] show ?thesis
      by (auto split: if_splits)
  qed
qed

lemma loop_body_Inr:
  assumes "loop_body lev t recs s = Inr s'"
  shows "\<exists>outr k. outputreads s = Some outr \<and> outputreads s' = Some (counter_incr k outr) \<and>
           count s' = count s + 1"
proof -
  obtain fq_id seqX s1 where f: "format_read recs (s\<lparr>count := count s + 1\<rparr>) = Inr (fq_id, seqX, s1)"
    and d: "demultiplex_read lev t fq_id seqX s1 = Inr s'"
    using assms by (auto simp: loop_body_def py_bind_def split: sum.splits)
  from format_read_Inr [OF f] demultiplex_read_Inr [OF d] show ?thesis by auto
qed

lemma demultiplex_loop_Inr:
  "demultiplex_loop lev t rs s = Inr s' \<Longrightarrow> outputreads s = Some outr \<Longrightarrow>
     \<exists>outr'. outputreads s' = Some outr' \<and>
        sum_list (map snd outr') = sum_list (map snd outr) + length rs \<and>
        count s' = count s + length rs"
proof (induction rs arbitrary: s outr)
  case Nil
  then show ?case by simp
next
  case (Cons r rs)
  from Cons.prems(1) obtain s1 where b: "loop_body lev t r s = Inr s1"
    and l: "demultiplex_loop lev t rs s1 = Inr s'"
    by (auto simp: py_bind_def split: sum.splits)
  from loop_body_Inr [OF b] Cons.prems(2) obtain k where
    o1: "outputreads s1 = Some (counter_incr k outr)" and c1: "count s1 = count s + 1"
    by auto
  from Cons.IH [OF l o1] show ?case
    using c1 by (auto simp: counter_incr_sum)
qed

subsection \<open>The step follows the decision\<close>

text \<open>
  \<open>classify\<close> names the branch that \<open>demultiplex_read\<close> takes: with the table
  bound, the step is the routing of the outcome.
\<close>

lemma demultiplex_read_follows_classify:
  assumes "XXdict1 s = Some XXd"
  shows "demultiplex_read lev t fq_id seqX s =
           py_bind (classify lev t seqX XXd) (\<lambda>outcome.
             case outcome of
               Exact d \<Rightarrow>
                 py_bind (write_sample d s) (\<lambda>(p, s1).
                   count_output p (s1\<lparr>dmpd_count := dmpd_count s1 + 1\<rparr>))
             | Fuzzy d \<Rightarrow>
                 py_bind (write_sample d s) (\<lambda>(p, s1).
                   count_output p (s1\<lparr>dmpd_count := dmpd_count s1 + 1,
                                       fuzzy_count := fuzzy_count s1 + 1,
                                       fuzzies := fuzzies s1 @ [fq_id]\<rparr>))
             | Ambiguous n \<Rightarrow> write_failed (s\<lparr>clash_count := clash_count s + 1\<rparr>)
             | Unmatched \<Rightarrow> write_failed s)"
  using assms
  by (auto simp: demultiplex_read_def classify_def py_bind_def py_name_def py_lookup_def Let_def
      split: option.splits)

lemma four_stream_quality_needed:
  "snd (snd record1) = None \<or> snd (snd record3) = None \<Longrightarrow>
     loop_body lev t (Four record1 record2 record3 record4) s = Inl TypeError"
  by (auto simp: loop_body_def py_bind_def py_str_def Let_def split: option.splits)

subsection \<open>The tables start with all counts at zero\<close>

lemma update_zero_sum:
  "sum_list (map snd c) = 0 \<Longrightarrow> sum_list (map snd (AList.update k (0::nat) c)) = 0"
  using sum_update [of k 0 c] by linarith

lemma read_index_dual_loop_sum:
  "read_index_dual_loop revcomp suffix ls (X, outr, u) = Inr (X', outr', u') \<Longrightarrow>
     sum_list (map snd outr) = 0 \<Longrightarrow> sum_list (map snd outr') = 0"
proof (induction ls arbitrary: X outr u)
  case Nil
  then show ?case by simp
next
  case (Cons l ls)
  show ?case
  proof (cases "l = ''\<newline>''")
    case True
    with Cons.prems show ?thesis by simp
  next
    case False
    with Cons.prems(1) obtain X1 k u1 where
      "read_index_dual_loop revcomp suffix ls (X1, AList.update k 0 outr, u1) = Inr (X', outr', u')"
      by (auto simp: py_bind_def Let_def split: sum.splits)
    from Cons.IH [OF this] Cons.prems(2) show ?thesis
      by (simp add: update_zero_sum)
  qed
qed

lemma read_index_single_loop_sum:
  "read_index_single_loop suffix ls (X, outr, u) = Inr (X', outr', u') \<Longrightarrow>
     sum_list (map snd outr) = 0 \<Longrightarrow> sum_list (map snd outr') = 0"
proof (induction ls arbitrary: X outr u)
  case Nil
  then show ?case by simp
next
  case (Cons l ls)
  show ?case
  proof (cases "l = ''\<newline>''")
    case True
    with Cons.prems show ?thesis by simp
  next
    case False
    with Cons.prems(1) obtain X1 k u1 where
      "read_index_single_loop suffix ls (X1, AList.update k 0 outr, u1) = Inr (X', outr', u')"
      by (auto simp: py_bind_def Let_def split: sum.splits)
    from Cons.IH [OF this] Cons.prems(2) show ?thesis
      by (simp add: update_zero_sum)
  qed
qed

lemma outputall_loop_sum:
  "outputall_loop suffix xs g = Inr g' \<Longrightarrow> outputreads g = Some outr \<Longrightarrow>
     sum_list (map snd outr) = 0 \<Longrightarrow>
     (\<exists>outr'. outputreads g' = Some outr' \<and> sum_list (map snd outr') = 0) \<and> count g' = count g"
proof (induction xs arbitrary: g outr)
  case Nil
  then show ?case by simp
next
  case (Cons x xs)
  from Cons.prems(1) consider
      (fresh) X k used where
        "outputall_loop suffix xs
           (g\<lparr>XXdict1 := Some X, outputreads := Some (AList.update k 0 outr),
              usedindexes := Some used\<rparr>) = Inr g'"
    | (known) "outputall_loop suffix xs g = Inr g'"
    using Cons.prems(2)
    by (auto simp: py_bind_def py_name_def Let_def split: sum.splits option.splits if_splits)
  then show ?case
  proof cases
    case fresh
    from Cons.IH [OF fresh, of "AList.update k 0 outr"] Cons.prems(3)
    show ?thesis by (simp add: update_zero_sum)
  next
    case known
    from Cons.IH [OF known Cons.prems(2,3)] show ?thesis .
  qed
qed

lemma outputall_loop_unbound:
  "usedindexes g = None \<Longrightarrow> xs \<noteq> [] \<Longrightarrow> outputall_loop suffix xs g \<noteq> Inr g'"
  by (cases xs) (auto simp: py_bind_def py_name_def Let_def split: sum.splits)

lemma outputall_loop_unbound_table:
  "outputall_loop suffix xs g = Inr g' \<Longrightarrow> XXdict1 g = None \<Longrightarrow> XXdict1 g' = None"
proof (induction xs arbitrary: g)
  case Nil
  then show ?case by simp
next
  case (Cons x xs)
  from Cons.prems have "outputall_loop suffix xs g = Inr g'"
    by (auto simp: py_bind_def py_name_def Let_def split: sum.splits option.splits if_splits)
  from Cons.IH [OF this Cons.prems(2)] show ?case .
qed

lemma allXcombs_nonempty: "allXcombs \<noteq> []"
  by (simp add: allXcombs_def X1dict_def X2dict_def)

lemma read_tables_Inr:
  assumes "read_tables fs revcomp a = Inr g"
  shows "count g = 0 \<and>
         (if truthy (indexlist a)
          then \<exists>outr. outputreads g = Some outr \<and> sum_list (map snd outr) = 0
          else usedindexes g = None)"
proof (cases "truthy (indexlist a)")
  case False
  with assms show ?thesis by (auto simp: read_tables_def initial_state_def)
next
  case True
  show ?thesis
  proof (cases "truthy (index2 a)")
    case dual: True
    from assms True dual obtain X outr u where
      r: "read_index_dual_file fs revcomp a = Inr (X, outr, u)"
      and g: "g = initial_state\<lparr>XXdict1 := Some X, outputreads := Some outr,
                    usedindexes := Some u, failed1 := Some [], failed2 := Some []\<rparr>"
      by (auto simp: read_tables_def py_bind_def split: sum.splits)
    from r obtain p where
      "read_index_dual_loop revcomp (''.'' @ extension a) (py_lines (fs p))
         ([], [(''Undetermined'', 0)], []) = Inr (X, outr, u)"
      by (auto simp: read_index_dual_file_def py_bind_def py_str_def Let_def split: option.splits)
    from read_index_dual_loop_sum [OF this] have "sum_list (map snd outr) = 0" by simp
    with g True show ?thesis by (simp add: initial_state_def)
  next
    case single: False
    from assms True single obtain X outr u where
      r: "read_index_single_file fs a = Inr (X, outr, u)"
      and g: "g = initial_state\<lparr>XXdict := Some X, outputreads := Some outr,
                    usedindexes := Some u, failed := Some []\<rparr>"
      by (auto simp: read_tables_def py_bind_def split: sum.splits)
    from r obtain p where
      "read_index_single_loop (''.'' @ extension a) (py_lines (fs p))
         ([], [(''Undetermined'', 0)], []) = Inr (X, outr, u)"
      by (auto simp: read_index_single_file_def py_bind_def py_str_def Let_def split: option.splits)
    from read_index_single_loop_sum [OF this] have "sum_list (map snd outr) = 0" by simp
    with g True show ?thesis by (simp add: initial_state_def)
  qed
qed

lemma build_tables_Inr:
  assumes "build_tables fs revcomp a = Inr g" and "outputall a \<or> truthy (indexlist a)"
  shows "count g = 0 \<and> (\<exists>outr. outputreads g = Some outr \<and> sum_list (map snd outr) = 0)"
proof -
  from assms(1) obtain g0 where r: "read_tables fs revcomp a = Inr g0"
    and o: "(if outputall a then outputall_loop (''.'' @ extension a) allXcombs g0 else Inr g0) = Inr g"
    by (auto simp: build_tables_def py_bind_def split: sum.splits)
  note t = read_tables_Inr [OF r]
  show ?thesis
  proof (cases "truthy (indexlist a)")
    case True
    with t obtain outr where z: "outputreads g0 = Some outr" "sum_list (map snd outr) = 0"
      by auto
    show ?thesis
    proof (cases "outputall a")
      case True
      with o have "outputall_loop (''.'' @ extension a) allXcombs g0 = Inr g" by simp
      from outputall_loop_sum [OF this z] t show ?thesis by simp
    next
      case False
      with o have "g = g0" by simp
      with t z show ?thesis by simp
    qed
  next
    case False
    with assms(2) have oa: "outputall a" by simp
    from False t have "usedindexes g0 = None" by simp
    from outputall_loop_unbound [OF this allXcombs_nonempty] o oa
    show ?thesis by simp
  qed
qed

subsection \<open>Keys of the dual-index table\<close>





subsection \<open>The table during a run\<close>

text \<open>
  The keys of a dictionary are distinct; the association lists built by the table
  readers and by the "output all" block have this property, and the main loop never
  changes the table.
\<close>

lemma read_index_dual_loop_distinct:
  "read_index_dual_loop revcomp suffix ls (X, outr, u) = Inr (X', outr', u') \<Longrightarrow>
     distinct (map fst X) \<Longrightarrow> distinct (map fst X')"
proof (induction ls arbitrary: X outr u)
  case Nil
  then show ?case by simp
next
  case (Cons l ls)
  show ?case
  proof (cases "l = ''\<newline>''")
    case True
    with Cons.prems show ?thesis by simp
  next
    case False
    with Cons.prems(1) obtain k d outr1 u1 where
      "read_index_dual_loop revcomp suffix ls (AList.update k d X, outr1, u1) = Inr (X', outr', u')"
      by (auto simp: py_bind_def Let_def split: sum.splits)
    from Cons.IH [OF this] Cons.prems(2) show ?thesis
      by (simp add: distinct_update)
  qed
qed

lemma outputall_loop_distinct:
  "outputall_loop suffix xs g = Inr g' \<Longrightarrow> XXdict1 g = Some X \<Longrightarrow> distinct (map fst X) \<Longrightarrow>
     \<exists>X'. XXdict1 g' = Some X' \<and> distinct (map fst X')"
proof (induction xs arbitrary: g X)
  case Nil
  then show ?case by simp
next
  case (Cons x xs)
  from Cons.prems(1) consider
      (fresh) k d outr used where
        "outputall_loop suffix xs
           (g\<lparr>XXdict1 := Some (AList.update k d X), outputreads := Some outr,
              usedindexes := Some used\<rparr>) = Inr g'"
    | (known) "outputall_loop suffix xs g = Inr g'"
    using Cons.prems(2)
    by (auto simp: py_bind_def py_name_def Let_def split: sum.splits option.splits if_splits)
  then show ?case
  proof cases
    case fresh
    from Cons.IH [OF fresh, of "AList.update k d X"] Cons.prems(3)
    show ?thesis by (simp add: distinct_update)
  next
    case known
    from Cons.IH [OF known Cons.prems(2,3)] show ?thesis .
  qed
qed

lemma build_tables_distinct:
  assumes "build_tables fs revcomp a = Inr g" and "XXdict1 g = Some X"
  shows "distinct (map fst X)"
proof -
  from assms(1) obtain g0 where r: "read_tables fs revcomp a = Inr g0"
    and o: "(if outputall a then outputall_loop (''.'' @ extension a) allXcombs g0 else Inr g0) = Inr g"
    by (auto simp: build_tables_def py_bind_def split: sum.splits)
  have g0: "XXdict1 g0 = None \<or> (\<exists>X0. XXdict1 g0 = Some X0 \<and> distinct (map fst X0))"
  proof (cases "truthy (indexlist a) \<and> truthy (index2 a)")
    case True
    with r obtain X0 outr u where
      d: "read_index_dual_file fs revcomp a = Inr (X0, outr, u)" and x: "XXdict1 g0 = Some X0"
      by (auto simp: read_tables_def py_bind_def initial_state_def split: sum.splits)
    from d obtain p where
      "read_index_dual_loop revcomp (''.'' @ extension a) (py_lines (fs p))
         ([], [(''Undetermined'', 0)], []) = Inr (X0, outr, u)"
      by (auto simp: read_index_dual_file_def py_bind_def py_str_def Let_def split: option.splits)
    from read_index_dual_loop_distinct [OF this] x show ?thesis by simp
  next
    case False
    with r have "XXdict1 g0 = None"
      by (auto simp: read_tables_def py_bind_def initial_state_def split: if_splits sum.splits)
    then show ?thesis by simp
  qed
  show ?thesis
  proof (cases "outputall a")
    case False
    with o have "g = g0" by simp
    with g0 assms(2) show ?thesis by auto
  next
    case True
    with o have l: "outputall_loop (''.'' @ extension a) allXcombs g0 = Inr g" by simp
    from g0 show ?thesis
    proof
      assume "XXdict1 g0 = None"
      from outputall_loop_unbound_table [OF l this] assms(2) show ?thesis by simp
    next
      assume "\<exists>X0. XXdict1 g0 = Some X0 \<and> distinct (map fst X0)"
      then obtain X0 where "XXdict1 g0 = Some X0" "distinct (map fst X0)" by blast
      from outputall_loop_distinct [OF l this] assms(2) show ?thesis by auto
    qed
  qed
qed

lemma loop_body_table:
  assumes "loop_body lev t recs s = Inr s'"
  shows "XXdict1 s' = XXdict1 s"
proof -
  obtain fq_id seqX s1 where f: "format_read recs (s\<lparr>count := count s + 1\<rparr>) = Inr (fq_id, seqX, s1)"
    and d: "demultiplex_read lev t fq_id seqX s1 = Inr s'"
    using assms by (auto simp: loop_body_def py_bind_def split: sum.splits)
  from format_read_Inr [OF f] have "XXdict1 s1 = XXdict1 s" by simp
  moreover from d have "XXdict1 s' = XXdict1 s1"
    by (auto simp: demultiplex_read_def py_bind_def py_name_def py_lookup_def py_open_def
        write_sample_def write_failed_def count_output_def Let_def
        split: option.splits if_splits dest.splits sum.splits)
  ultimately show ?thesis by simp
qed

subsection \<open>Exact matches\<close>

text \<open>
  C1. A compound barcode that is a key of the index table is classified as an exact
  match for the dictionary value of that key, whatever the threshold (0 included)
  and whatever the distance function: the membership test decides alone, and the
  step taken by the loop does not depend on the distance or the threshold either.
  Where the value is a file name and the record strings are bound, the step appends
  the two records to the files of that sample and adds one to \<open>dmpd_count\<close> and to
  the count kept under that file name; the fuzzy and clash counters stay.
\<close>

theorem exact_match_classified:
  assumes "seqX \<in> set (map fst XXd)" and "XXdict1 s = Some XXd"
  shows "(\<exists>d. map_of XXd seqX = Some d \<and>
              (\<forall>lev t. classify lev t seqX XXd = Inr (Exact d))) \<and>
         (\<forall>lev t lev' t'. demultiplex_read lev t fq_id seqX s =
                            demultiplex_read lev' t' fq_id seqX s) \<and>
         (\<forall>lev t p nr1 nr2 outr.
            map_of XXd seqX = Some (Path p) \<and> new_record1 s = Some nr1 \<and>
            new_record2 s = Some nr2 \<and> outputreads s = Some outr \<longrightarrow>
            demultiplex_read lev t fq_id seqX s =
              Inr (s\<lparr>appended := append_file (replace_str ''R1.f'' ''R2.f'' p) nr2
                                   (append_file p nr1 (appended s)),
                     dmpd_count := dmpd_count s + 1,
                     outputreads := Some (counter_incr p outr)\<rparr>))"
proof -
  obtain d where d: "map_of XXd seqX = Some d"
    using map_of_key [OF assms(1)] by blast
  have "\<forall>lev t. classify lev t seqX XXd = Inr (Exact d)"
    using assms(1) d by (simp add: classify_def py_bind_def py_lookup_def)
  moreover have "\<forall>lev t lev' t'. demultiplex_read lev t fq_id seqX s =
                                   demultiplex_read lev' t' fq_id seqX s"
    using assms by (simp add: demultiplex_read_def py_bind_def py_name_def)
  moreover have "\<forall>lev t p nr1 nr2 outr.
            map_of XXd seqX = Some (Path p) \<and> new_record1 s = Some nr1 \<and>
            new_record2 s = Some nr2 \<and> outputreads s = Some outr \<longrightarrow>
            demultiplex_read lev t fq_id seqX s =
              Inr (s\<lparr>appended := append_file (replace_str ''R1.f'' ''R2.f'' p) nr2
                                   (append_file p nr1 (appended s)),
                     dmpd_count := dmpd_count s + 1,
                     outputreads := Some (counter_incr p outr)\<rparr>)"
    using demultiplex_read_exact [OF assms(2)] by blast
  ultimately show ?thesis using d by blast
qed

theorem exact_match_classified_witness:
  "(\<exists>d. map_of [(''GTCA'', Path ''S1_R1.fq''), (''TTAA'', Path ''S2_R1.fq'')] ''GTCA'' = Some d \<and>
        (\<forall>lev t. classify lev t ''GTCA''
                    [(''GTCA'', Path ''S1_R1.fq''), (''TTAA'', Path ''S2_R1.fq'')] = Inr (Exact d))) \<and>
   demultiplex_read lev_distance 0 ''read1'' ''GTCA''
     (initial_state\<lparr>XXdict1 := Some [(''GTCA'', Path ''S1_R1.fq''), (''TTAA'', Path ''S2_R1.fq'')],
                     new_record1 := Some ''one'', new_record2 := Some ''two'',
                     outputreads := Some [(''Undetermined'', 0)]\<rparr>)
     = Inr (initial_state\<lparr>XXdict1 := Some [(''GTCA'', Path ''S1_R1.fq''), (''TTAA'', Path ''S2_R1.fq'')],
                     new_record1 := Some ''one'', new_record2 := Some ''two'',
                     outputreads := Some [(''Undetermined'', 0), (''S1_R1.fq'', 1)],
                     appended := [(''S1_R1.fq'', ''one''), (''S1_R2.fq'', ''two'')],
                     dmpd_count := 1\<rparr>)"
  using exact_match_classified
          [of "''GTCA''" "[(''GTCA'', Path ''S1_R1.fq''), (''TTAA'', Path ''S2_R1.fq'')]"
              "initial_state\<lparr>XXdict1 := Some [(''GTCA'', Path ''S1_R1.fq''), (''TTAA'', Path ''S2_R1.fq'')],
                     new_record1 := Some ''one'', new_record2 := Some ''two'',
                     outputreads := Some [(''Undetermined'', 0)]\<rparr>" "''read1''"]
  by (simp add: initial_state_def append_file_def counter_incr_def counter_get_def
      replace_str.simps)

subsection \<open>Fuzzy matches\<close>



subsection \<open>Clashes\<close>

text \<open>
  C3, as stated, fails on a barcode that is itself a key of the table: with the keys
  \<open>AC\<close> and \<open>AG\<close> and threshold 2 the barcode \<open>AC\<close> lies within the threshold of
  both keys, and yet it is an exact match: the read is written to the first sample,
  whose count goes up, and the clash counter stays at 0.
\<close>

theorem clash_claim_counterexample:
  "int (lev_distance ''AC'' ''AC'') \<le> 2 \<and> int (lev_distance ''AG'' ''AC'') \<le> 2 \<and>
   classify lev_distance 2 ''AC'' [(''AC'', Path ''S1_R1.fq''), (''AG'', Path ''S2_R1.fq'')]
     = Inr (Exact (Path ''S1_R1.fq'')) \<and>
   map_sum id clash_count
     (demultiplex_read lev_distance 2 ''read1'' ''AC''
        (initial_state\<lparr>XXdict1 := Some [(''AC'', Path ''S1_R1.fq''), (''AG'', Path ''S2_R1.fq'')],
                        new_record1 := Some ''one'', new_record2 := Some ''two'',
                        failed1 := Some [], failed2 := Some [],
                        outputreads := Some [(''Undetermined'', 0)]\<rparr>)) = Inr 0 \<and>
   map_sum id outputreads
     (demultiplex_read lev_distance 2 ''read1'' ''AC''
        (initial_state\<lparr>XXdict1 := Some [(''AC'', Path ''S1_R1.fq''), (''AG'', Path ''S2_R1.fq'')],
                        new_record1 := Some ''one'', new_record2 := Some ''two'',
                        failed1 := Some [], failed2 := Some [],
                        outputreads := Some [(''Undetermined'', 0)]\<rparr>))
     = Inr (Some [(''Undetermined'', 0), (''S1_R1.fq'', 1)])"
  by (simp add: classify_def demultiplex_read_def py_bind_def py_name_def py_lookup_def
      py_open_def write_sample_def count_output_def counter_incr_def counter_get_def
      initial_state_def)

text \<open>
  C3, amended. A compound barcode that is not a key of the table and that lies
  within the threshold of two or more distinct keys is classified as ambiguous. The
  step appends the two records to the Undetermined files, adds one to the clash
  counter and to the count of \<open>Undetermined\<close>, and changes nothing else: the count
  kept under any other name stays as it was.
\<close>

theorem clash_goes_to_undetermined:
  assumes "XXdict1 s = Some XXd"
    and "new_record1 s = Some nr1" and "new_record2 s = Some nr2"
    and "failed1 s = Some f1" and "failed2 s = Some f2"
    and "outputreads s = Some outr"
    and "seqX \<notin> set (map fst XXd)"
    and "k1 \<in> set (map fst XXd)" and "k2 \<in> set (map fst XXd)" and "k1 \<noteq> k2"
    and "int (lev k1 seqX) \<le> t" and "int (lev k2 seqX) \<le> t"
  shows "classify lev t seqX XXd = Inr (Ambiguous (length (fuzzy_matches lev t seqX XXd))) \<and>
         2 \<le> length (fuzzy_matches lev t seqX XXd) \<and>
         demultiplex_read lev t fq_id seqX s =
           Inr (s\<lparr>clash_count := clash_count s + 1,
                  failed1 := Some (f1 @ nr1), failed2 := Some (f2 @ nr2),
                  outputreads := Some (counter_incr ''Undetermined'' outr)\<rparr>) \<and>
         (\<forall>k. k = ''Undetermined'' \<or>
              counter_get (counter_incr ''Undetermined'' outr) k = counter_get outr k)"
proof -
  have two: "2 \<le> length (fuzzy_matches lev t seqX XXd)"
    unfolding fuzzy_matches_def
    using assms(8,9,10,11,12) by (intro filter_two [of k1 _ k2]) auto
  then have ne: "length (fuzzy_matches lev t seqX XXd) \<noteq> 1" by simp
  have "classify lev t seqX XXd = Inr (Ambiguous (length (fuzzy_matches lev t seqX XXd)))"
    using assms(7) two by (simp add: classify_def)
  moreover have "demultiplex_read lev t fq_id seqX s =
           Inr (s\<lparr>clash_count := clash_count s + 1,
                  failed1 := Some (f1 @ nr1), failed2 := Some (f2 @ nr2),
                  outputreads := Some (counter_incr ''Undetermined'' outr)\<rparr>)"
    using demultiplex_read_failed [OF assms(1,7) ne assms(4,5,2,3,6)] two by simp
  ultimately show ?thesis using two by (simp add: counter_get_incr)
qed

theorem clash_goes_to_undetermined_witness:
  "classify lev_distance 1 ''AA'' [(''AC'', Path ''S1_R1.fq''), (''AG'', Path ''S2_R1.fq'')]
     = Inr (Ambiguous 2) \<and>
   map_sum id clash_count
     (demultiplex_read lev_distance 1 ''read1'' ''AA''
        (initial_state\<lparr>XXdict1 := Some [(''AC'', Path ''S1_R1.fq''), (''AG'', Path ''S2_R1.fq'')],
                        new_record1 := Some ''one'', new_record2 := Some ''two'',
                        failed1 := Some [], failed2 := Some [],
                        outputreads := Some [(''Undetermined'', 0)]\<rparr>)) = Inr 1"
  using clash_goes_to_undetermined
          [of "initial_state\<lparr>XXdict1 := Some [(''AC'', Path ''S1_R1.fq''), (''AG'', Path ''S2_R1.fq'')],
                        new_record1 := Some ''one'', new_record2 := Some ''two'',
                        failed1 := Some [], failed2 := Some [],
                        outputreads := Some [(''Undetermined'', 0)]\<rparr>"
              "[(''AC'', Path ''S1_R1.fq''), (''AG'', Path ''S2_R1.fq'')]"
              "''one''" "''two''" "[]" "[]" "[(''Undetermined'', 0)]" "''AA''" "''AC''" "''AG''"
              lev_distance 1 "''read1''"]
  by (simp add: initial_state_def fuzzy_matches_def)

subsection \<open>Reads without a match\<close>

text \<open>
  C4. With a non-negative threshold, a compound barcode that has no key of the table
  within the threshold is classified as unmatched: the step appends the two records
  to the Undetermined files and adds one to the count of \<open>Undetermined\<close>, and
  nothing else changes (the clash counter, \<open>dmpd_count\<close>, \<open>fuzzy_count\<close> and every
  other count stay). With threshold 0 this is the case of every barcode that is not
  a key of the table: no fuzzy match is made.
\<close>

theorem no_candidate_unmatched:
  assumes "XXdict1 s = Some XXd"
    and "new_record1 s = Some nr1" and "new_record2 s = Some nr2"
    and "failed1 s = Some f1" and "failed2 s = Some f2"
    and "outputreads s = Some outr"
  shows "(0 \<le> t \<and> (\<forall>k\<in>set (map fst XXd). \<not> int (lev_distance k seqX) \<le> t) \<longrightarrow>
            classify lev_distance t seqX XXd = Inr Unmatched \<and>
            demultiplex_read lev_distance t fq_id seqX s =
              Inr (s\<lparr>failed1 := Some (f1 @ nr1), failed2 := Some (f2 @ nr2),
                     outputreads := Some (counter_incr ''Undetermined'' outr)\<rparr>)) \<and>
         (seqX \<notin> set (map fst XXd) \<longrightarrow>
            classify lev_distance 0 seqX XXd = Inr Unmatched \<and>
            demultiplex_read lev_distance 0 fq_id seqX s =
              Inr (s\<lparr>failed1 := Some (f1 @ nr1), failed2 := Some (f2 @ nr2),
                     outputreads := Some (counter_incr ''Undetermined'' outr)\<rparr>))"
proof -
  have none: "classify lev_distance u seqX XXd = Inr Unmatched \<and>
              demultiplex_read lev_distance u fq_id seqX s =
                Inr (s\<lparr>failed1 := Some (f1 @ nr1), failed2 := Some (f2 @ nr2),
                       outputreads := Some (counter_incr ''Undetermined'' outr)\<rparr>)"
    if notkey: "seqX \<notin> set (map fst XXd)"
      and far: "\<forall>k\<in>set (map fst XXd). \<not> int (lev_distance k seqX) \<le> u" for u
  proof -
    have m: "fuzzy_matches lev_distance u seqX XXd = []"
      unfolding fuzzy_matches_def using far by (auto simp: filter_empty_conv)
    then have ne: "length (fuzzy_matches lev_distance u seqX XXd) \<noteq> 1" by simp
    have "classify lev_distance u seqX XXd = Inr Unmatched"
      using notkey m by (simp add: classify_def)
    moreover have "demultiplex_read lev_distance u fq_id seqX s =
                Inr (s\<lparr>failed1 := Some (f1 @ nr1), failed2 := Some (f2 @ nr2),
                       outputreads := Some (counter_incr ''Undetermined'' outr)\<rparr>)"
      using demultiplex_read_failed [OF assms(1) notkey ne assms(4,5,2,3,6)] m by simp
    ultimately show ?thesis by simp
  qed
  show ?thesis
  proof (intro conjI impI)
    assume h: "0 \<le> t \<and> (\<forall>k\<in>set (map fst XXd). \<not> int (lev_distance k seqX) \<le> t)"
    have notkey: "seqX \<notin> set (map fst XXd)"
    proof
      assume "seqX \<in> set (map fst XXd)"
      with h have "\<not> int (lev_distance seqX seqX) \<le> t" by blast
      moreover have "lev_distance seqX seqX = 0" by (simp add: lev_distance_zero)
      ultimately show False using h by simp
    qed
    from none [OF notkey] h
    show "classify lev_distance t seqX XXd = Inr Unmatched" by blast
    from none [OF notkey] h
    show "demultiplex_read lev_distance t fq_id seqX s =
              Inr (s\<lparr>failed1 := Some (f1 @ nr1), failed2 := Some (f2 @ nr2),
                     outputreads := Some (counter_incr ''Undetermined'' outr)\<rparr>)" by blast
  next
    assume notkey: "seqX \<notin> set (map fst XXd)"
    have far: "\<forall>k\<in>set (map fst XXd). \<not> int (lev_distance k seqX) \<le> 0"
    proof
      fix k assume "k \<in> set (map fst XXd)"
      with notkey have "k \<noteq> seqX" by blast
      then have "lev_distance k seqX \<noteq> 0" by (simp add: lev_distance_zero)
      then show "\<not> int (lev_distance k seqX) \<le> 0" by simp
    qed
    from none [OF notkey far]
    show "classify lev_distance 0 seqX XXd = Inr Unmatched" by blast
    from none [OF notkey far]
    show "demultiplex_read lev_distance 0 fq_id seqX s =
              Inr (s\<lparr>failed1 := Some (f1 @ nr1), failed2 := Some (f2 @ nr2),
                     outputreads := Some (counter_incr ''Undetermined'' outr)\<rparr>)" by blast
  qed
qed

theorem no_candidate_unmatched_witness:
  "classify lev_distance 1 ''TT'' [(''AC'', Path ''S1_R1.fq''), (''AG'', Path ''S2_R1.fq'')]
     = Inr Unmatched \<and>
   classify lev_distance 0 ''AA'' [(''AC'', Path ''S1_R1.fq''), (''AG'', Path ''S2_R1.fq'')]
     = Inr Unmatched \<and>
   map_sum id outputreads
     (demultiplex_read lev_distance 0 ''read1'' ''AA''
        (initial_state\<lparr>XXdict1 := Some [(''AC'', Path ''S1_R1.fq''), (''AG'', Path ''S2_R1.fq'')],
                        new_record1 := Some ''one'', new_record2 := Some ''two'',
                        failed1 := Some [], failed2 := Some [],
                        outputreads := Some [(''Undetermined'', 0)]\<rparr>))
     = Inr (Some [(''Undetermined'', 1)])"
  using no_candidate_unmatched
          [of "initial_state\<lparr>XXdict1 := Some [(''AC'', Path ''S1_R1.fq''), (''AG'', Path ''S2_R1.fq'')],
                        new_record1 := Some ''one'', new_record2 := Some ''two'',
                        failed1 := Some [], failed2 := Some [],
                        outputreads := Some [(''Undetermined'', 0)]\<rparr>"
              "[(''AC'', Path ''S1_R1.fq''), (''AG'', Path ''S2_R1.fq'')]"
              "''one''" "''two''" "[]" "[]" "[(''Undetermined'', 0)]" 1 "''TT''" "''read1''"]
        no_candidate_unmatched
          [of "initial_state\<lparr>XXdict1 := Some [(''AC'', Path ''S1_R1.fq''), (''AG'', Path ''S2_R1.fq'')],
                        new_record1 := Some ''one'', new_record2 := Some ''two'',
                        failed1 := Some [], failed2 := Some [],
                        outputreads := Some [(''Undetermined'', 0)]\<rparr>"
              "[(''AC'', Path ''S1_R1.fq''), (''AG'', Path ''S2_R1.fq'')]"
              "''one''" "''two''" "[]" "[]" "[(''Undetermined'', 0)]" 0 "''AA''" "''read1''"]
  by (simp add: initial_state_def counter_incr_def counter_get_def)

subsection \<open>Three-stream reads\<close>

text \<open>
  The compound barcode of a three-stream tuple is the window \<open>[6:12]\<close> of the
  sequence of stream 1 followed by the whole sequence of stream 2.
\<close>

lemma three_stream_barcode:
  "format_read (Three (id1, seq1, Some q1) (id2, seq2, Some q2) (id3, seq3, Some q3)) s =
     Inr (id1, take 6 (drop 6 seq1) @ seq2,
          s\<lparr>new_record := Some (''@'' @ id1 @ ''\<newline>'' @
                 (take 45 seq3 @ take 6 (drop 6 seq1) @ seq2 @ drop 12 seq1) @ ''\<newline>+\<newline>'' @
                 (take 45 q3 @ take 6 (drop 6 q1) @ q2 @ drop 12 q1) @ ''\<newline>'')\<rparr>)"
  by (simp add: py_bind_def py_str_def py_slice_def Let_def)

text \<open>
  Without a second index file the name \<open>XXdict1\<close> is never bound: the table is
  stored under \<open>XXdict\<close>, and the "output all" block cannot bind it either.
\<close>

lemma single_index_unbound_table:
  assumes "\<not> truthy (index2 a)" and "build_tables fs revcomp a = Inr g"
  shows "XXdict1 g = None"
proof -
  from assms(2) obtain g0 where r: "read_tables fs revcomp a = Inr g0"
    and o: "(if outputall a then outputall_loop (''.'' @ extension a) allXcombs g0 else Inr g0) = Inr g"
    by (auto simp: build_tables_def py_bind_def split: sum.splits)
  from r assms(1) have "XXdict1 g0 = None"
    by (auto simp: read_tables_def py_bind_def initial_state_def split: if_splits sum.splits)
  with o show ?thesis
    by (auto dest: outputall_loop_unbound_table split: if_splits)
qed

lemma loop_body_unbound_table:
  "XXdict1 s = None \<Longrightarrow> loop_body lev t recs s \<noteq> Inr s'"
proof
  assume n: "XXdict1 s = None" and b: "loop_body lev t recs s = Inr s'"
  from b obtain fq_id seqX s1 where
    f: "format_read recs (s\<lparr>count := count s + 1\<rparr>) = Inr (fq_id, seqX, s1)"
    and d: "demultiplex_read lev t fq_id seqX s1 = Inr s'"
    by (auto simp: loop_body_def py_bind_def split: sum.splits)
  from format_read_Inr [OF f] n have "XXdict1 s1 = None" by simp
  with d show False by (simp add: demultiplex_read_def py_bind_def py_name_def)
qed

lemma single_index_run_fails:
  assumes "\<not> truthy (index2 a)" and "zipfqs fs a \<noteq> []"
  shows "run fs revcomp lev a \<noteq> Inr s'"
proof
  assume "run fs revcomp lev a = Inr s'"
  then obtain g where bt: "build_tables fs revcomp a = Inr g"
    and lp: "demultiplex_loop lev (threshold a) (zipfqs fs a) g = Inr s'"
    by (auto simp: run_def py_bind_def split: sum.splits)
  from assms(2) obtain r rs where z: "zipfqs fs a = r # rs"
    by (cases "zipfqs fs a") auto
  from lp z obtain s1 where "loop_body lev (threshold a) r g = Inr s1"
    by (auto simp: py_bind_def split: sum.splits)
  with loop_body_unbound_table [OF single_index_unbound_table [OF assms(1) bt]]
  show False by blast
qed

text \<open>
  C5. The barcode of a three-stream tuple is formed as the claim says, but the read
  is never appended to a sample's file: the routing code reads \<open>XXdict1\<close>, which
  only the dual-index reader binds. With the index list \<open>S1,1,1\<close> and one read
  whose barcode \<open>ATCACGCGTGAT\<close> is exactly the key of sample S1, the table is built
  under \<open>XXdict\<close> and the first iteration ends with a NameError.
\<close>

theorem three_stream_read_name_error:
  "let fs = (\<lambda>p. if p = ''s.csv'' then ''S1,1,1'' @ ''\<newline>''
               else if p = ''r1.fq'' then ''@a'' @ ''\<newline>'' @ ''GGGGGGATCACGTT'' @ ''\<newline>+\<newline>'' @
                                          ''IIIIIIIIIIIIII'' @ ''\<newline>''
               else if p = ''i1.fq'' then ''@a'' @ ''\<newline>'' @ ''CGTGAT'' @ ''\<newline>+\<newline>'' @
                                          ''IIIIII'' @ ''\<newline>''
               else ''@a'' @ ''\<newline>'' @ ''CCCC'' @ ''\<newline>+\<newline>'' @ ''JJJJ'' @ ''\<newline>'');
       a = \<lparr>read1 = ''r1.fq'', read2 = ''r2.fq'', index1 = ''i1.fq'', index2 = None,
            indexlist = Some ''s.csv'', threshold = 2, outputall = False, extension = ''fq''\<rparr>
   in map_sum id XXdict (build_tables fs reverse_complement a)
        = Inr (Some [(''ATCACGCGTGAT'', Handle ''S1.fq'')]) \<and>
      zipfqs fs a = [Three (''a'', ''GGGGGGATCACGTT'', Some ''IIIIIIIIIIIIII'')
                           (''a'', ''CGTGAT'', Some ''IIIIII'')
                           (''a'', ''CCCC'', Some ''JJJJ'')] \<and>
      map_sum id (fst \<circ> snd)
        (format_read (Three (''a'', ''GGGGGGATCACGTT'', Some ''IIIIIIIIIIIIII'')
                            (''a'', ''CGTGAT'', Some ''IIIIII'')
                            (''a'', ''CCCC'', Some ''JJJJ'')) initial_state)
        = Inr ''ATCACGCGTGAT'' \<and>
      run fs reverse_complement lev_distance a = Inl (NameError ''XXdict1'')"
proof -
  define fs where "fs = (\<lambda>p. if p = ''s.csv'' then ''S1,1,1'' @ ''\<newline>''
               else if p = ''r1.fq'' then ''@a'' @ ''\<newline>'' @ ''GGGGGGATCACGTT'' @ ''\<newline>+\<newline>'' @
                                          ''IIIIIIIIIIIIII'' @ ''\<newline>''
               else if p = ''i1.fq'' then ''@a'' @ ''\<newline>'' @ ''CGTGAT'' @ ''\<newline>+\<newline>'' @
                                          ''IIIIII'' @ ''\<newline>''
               else ''@a'' @ ''\<newline>'' @ ''CCCC'' @ ''\<newline>+\<newline>'' @ ''JJJJ'' @ ''\<newline>'')"
  define a where "a = \<lparr>read1 = ''r1.fq'', read2 = ''r2.fq'', index1 = ''i1.fq'', index2 = None,
            indexlist = Some ''s.csv'', threshold = 2, outputall = False, extension = ''fq''\<rparr>"
  have t: "map_sum id XXdict (build_tables fs reverse_complement a)
             = Inr (Some [(''ATCACGCGTGAT'', Handle ''S1.fq'')])"
    by (simp add: fs_def a_def build_tables_def read_tables_def read_index_single_file_def
        py_bind_def py_index_def py_str_def py_strip_def py_lookup_def X1dict_def X2dict_def
        initial_state_def Let_def)
  have z: "zipfqs fs a = [Three (''a'', ''GGGGGGATCACGTT'', Some ''IIIIIIIIIIIIII'')
                                (''a'', ''CGTGAT'', Some ''IIIIII'')
                                (''a'', ''CCCC'', Some ''JJJJ'')]"
    by (simp add: zipfqs_def readfq_def readfq_loop.simps next_header_def fs_def a_def Let_def)
  have f: "map_sum id (fst \<circ> snd)
        (format_read (Three (''a'', ''GGGGGGATCACGTT'', Some ''IIIIIIIIIIIIII'')
                            (''a'', ''CGTGAT'', Some ''IIIIII'')
                            (''a'', ''CCCC'', Some ''JJJJ'')) initial_state)
        = Inr ''ATCACGCGTGAT''"
    by (simp add: py_bind_def py_str_def py_slice_def Let_def)
  have r: "run fs reverse_complement lev_distance a = Inl (NameError ''XXdict1'')"
    unfolding run_def z
    by (simp add: fs_def a_def startup_checks_def fastq_check_def build_tables_def
        read_tables_def read_index_single_file_def py_bind_def py_index_def py_str_def
        py_strip_def py_slice_def py_lookup_def X1dict_def X2dict_def initial_state_def Let_def
        loop_body_def demultiplex_read_def py_name_def)
  from t z f r show ?thesis unfolding fs_def a_def by (simp add: Let_def)
qed

subsection \<open>Dual-index keys and four-stream barcodes\<close>



subsection \<open>Start-up\<close>

text \<open>
  Without an index list and without the "output all" option the script exits before
  anything is read, and a file among read1, read2 and index1 that fails the sanity
  check ends the script before the tables are built and before the main loop.
\<close>

lemma no_table_no_outputall_exits:
  "outputall a = False \<Longrightarrow> \<not> truthy (indexlist a) \<Longrightarrow>
     run fs revcomp lev a = Inl SystemExit"
  by (simp add: run_def startup_checks_def py_bind_def)

lemma check_files_failed:
  "f \<in> set files \<Longrightarrow> fastq_check fs f = Inr False \<Longrightarrow> \<exists>e. check_files fs files = Inl e"
  by (induction files) (auto simp: py_bind_def split: sum.splits)

lemma failed_check_ends_run:
  assumes "f \<in> {read1 a, read2 a, index1 a}" and "fastq_check fs f = Inr False"
  shows "\<exists>e. run fs revcomp lev a = Inl e"
proof -
  from assms have "\<exists>e. check_files fs [read1 a, read2 a, index1 a] = Inl e"
    by (intro check_files_failed [of f]) auto
  then have "\<exists>e. startup_checks fs a = Inl e"
    by (auto simp: startup_checks_def)
  then show ?thesis by (auto simp: run_def py_bind_def)
qed

text \<open>
  C7. The second index file is an input FASTQ file too, and it is not in the list
  of files that are checked. With four inputs of which index2 starts with \<open>>\<close>
  instead of \<open>@\<close>, the sanity check of index2 would return False, and yet the start-up
  checks pass and the read is classified and written to sample S1.
\<close>

theorem second_index_file_not_checked:
  "let fs = (\<lambda>p. if p = ''s.csv'' then ''S1,TG,GT'' @ ''\<newline>''
               else if p = ''r1.fq'' then ''@r'' @ ''\<newline>'' @ ''AC'' @ ''\<newline>+\<newline>'' @ ''II'' @ ''\<newline>''
               else if p = ''i1.fq'' then ''@r'' @ ''\<newline>'' @ ''CA'' @ ''\<newline>+\<newline>'' @ ''II'' @ ''\<newline>''
               else if p = ''r2.fq'' then ''@r'' @ ''\<newline>'' @ ''GG'' @ ''\<newline>+\<newline>'' @ ''JJ'' @ ''\<newline>''
               else ''>r'' @ ''\<newline>'' @ ''GT'' @ ''\<newline>+\<newline>'' @ ''II'' @ ''\<newline>'');
       a = \<lparr>read1 = ''r1.fq'', read2 = ''r2.fq'', index1 = ''i1.fq'', index2 = Some ''i2.fq'',
            indexlist = Some ''s.csv'', threshold = 2, outputall = False, extension = ''fq''\<rparr>
   in fastq_check fs ''i2.fq'' = Inr False \<and>
      startup_checks fs a = Inr () \<and>
      map_sum id outputreads (run fs reverse_complement lev_distance a)
        = Inr (Some [(''Undetermined'', 0), (''S1'', 0), (''S1_R1.fq'', 1)])"
proof -
  define fs where "fs = (\<lambda>p. if p = ''s.csv'' then ''S1,TG,GT'' @ ''\<newline>''
               else if p = ''r1.fq'' then ''@r'' @ ''\<newline>'' @ ''AC'' @ ''\<newline>+\<newline>'' @ ''II'' @ ''\<newline>''
               else if p = ''i1.fq'' then ''@r'' @ ''\<newline>'' @ ''CA'' @ ''\<newline>+\<newline>'' @ ''II'' @ ''\<newline>''
               else if p = ''r2.fq'' then ''@r'' @ ''\<newline>'' @ ''GG'' @ ''\<newline>+\<newline>'' @ ''JJ'' @ ''\<newline>''
               else ''>r'' @ ''\<newline>'' @ ''GT'' @ ''\<newline>+\<newline>'' @ ''II'' @ ''\<newline>'')"
  define a where "a = \<lparr>read1 = ''r1.fq'', read2 = ''r2.fq'', index1 = ''i1.fq'', index2 = Some ''i2.fq'',
            indexlist = Some ''s.csv'', threshold = 2, outputall = False, extension = ''fq''\<rparr>"
  have c: "fastq_check fs ''i2.fq'' = Inr False"
    by (simp add: fs_def fastq_check_def py_bind_def py_index_def)
  have s: "startup_checks fs a = Inr ()"
    by (simp add: fs_def a_def startup_checks_def fastq_check_def py_bind_def py_index_def)
  have z: "zipfqs fs a =
             [Four (''r'', ''AC'', Some ''II'') (''r'', ''CA'', Some ''II'')
                   (''r'', ''GG'', Some ''JJ'') (''r'', ''GT'', Some ''II'')]"
    by (simp add: zipfqs_def readfq_def readfq_loop.simps next_header_def fs_def a_def Let_def)
  have r: "map_sum id outputreads (run fs reverse_complement lev_distance a)
        = Inr (Some [(''Undetermined'', 0), (''S1'', 0), (''S1_R1.fq'', 1)])"
    unfolding run_def z s
    by (simp add: fs_def a_def build_tables_def read_tables_def
        read_index_dual_file_def reverse_complement_def complement_def py_bind_def py_index_def
        py_str_def py_strip_def is_space_def
        initial_state_def Let_def loop_body_def demultiplex_read_def py_name_def
        py_lookup_def py_open_def write_sample_def count_output_def append_file_def
        counter_incr_def counter_get_def replace_str.simps)
  from c s r show ?thesis unfolding fs_def a_def by (simp add: Let_def)
qed

subsection \<open>Payload records\<close>

text \<open>
  C8, as stated, fails where the identifiers of stream 1 and stream 3 differ: both
  records are built from \<open>fq_id = record1[0]\<close>. For a read matched exactly, with
  identifier \<open>a\<close> in stream 1 and \<open>b\<close> in stream 3, the \<open>R2\<close> file receives
  \<open>@a\<close> with the sequence and quality of stream 3, not \<open>@b\<close>.
\<close>

theorem payload_identifier_counterexample:
  "map_sum id appended
     (loop_body lev_distance 0
        (Four (''a'', ''AC'', Some ''II'') (''x'', ''CA'', None)
              (''b'', ''TT'', Some ''JJ'') (''y'', ''GT'', None))
        (initial_state\<lparr>XXdict1 := Some [(''GTCA'', Path ''S1_R1.fq'')],
                        outputreads := Some [(''Undetermined'', 0), (''S1'', 0)],
                        failed1 := Some [], failed2 := Some []\<rparr>))
     = Inr [(''S1_R1.fq'', ''@a'' @ ''\<newline>'' @ ''AC'' @ ''\<newline>+\<newline>'' @ ''II'' @ ''\<newline>''),
            (''S1_R2.fq'', ''@a'' @ ''\<newline>'' @ ''TT'' @ ''\<newline>+\<newline>'' @ ''JJ'' @ ''\<newline>'')] \<and>
   map_sum id appended
     (loop_body lev_distance 0
        (Four (''a'', ''AC'', Some ''II'') (''x'', ''CA'', None)
              (''b'', ''TT'', Some ''JJ'') (''y'', ''GT'', None))
        (initial_state\<lparr>XXdict1 := Some [(''GTCA'', Path ''S1_R1.fq'')],
                        outputreads := Some [(''Undetermined'', 0), (''S1'', 0)],
                        failed1 := Some [], failed2 := Some []\<rparr>))
     \<noteq> Inr [(''S1_R1.fq'', ''@a'' @ ''\<newline>'' @ ''AC'' @ ''\<newline>+\<newline>'' @ ''II'' @ ''\<newline>''),
            (''S1_R2.fq'', ''@b'' @ ''\<newline>'' @ ''TT'' @ ''\<newline>+\<newline>'' @ ''JJ'' @ ''\<newline>'')]"
  by (simp add: loop_body_def demultiplex_read_def py_bind_def py_name_def py_lookup_def
      py_str_def py_open_def write_sample_def count_output_def append_file_def
      replace_str.simps initial_state_def)

text \<open>
  C8, amended. For every four-stream read that is matched exactly or fuzzily to a
  sample with file name \<open>p\<close>, the step appends to \<open>p\<close> the four-line record made of
  the identifier, sequence and quality of stream 1, and to the \<open>R2\<close> twin of \<open>p\<close> the
  four-line record made of the identifier of stream 1 with the sequence and quality
  of stream 3. Neither record contains anything of streams 2 and 4, from which the
  barcode is taken, and nothing is written to the Undetermined files.
\<close>

theorem matched_read_payload:
  assumes "XXdict1 s = Some XXd" and "outputreads s = Some outr"
    and "classify lev t (seq4 @ seq2) XXd = Inr (Exact (Path p)) \<or>
         classify lev t (seq4 @ seq2) XXd = Inr (Fuzzy (Path p))"
  shows "\<exists>s'. loop_body lev t
                (Four (id1, seq1, Some q1) (id2, seq2, q2) (id3, seq3, Some q3) (id4, seq4, q4)) s
                = Inr s' \<and>
              appended s' =
                append_file (replace_str ''R1.f'' ''R2.f'' p)
                  (''@'' @ id1 @ ''\<newline>'' @ seq3 @ ''\<newline>+\<newline>'' @ q3 @ ''\<newline>'')
                  (append_file p
                     (''@'' @ id1 @ ''\<newline>'' @ seq1 @ ''\<newline>+\<newline>'' @ q1 @ ''\<newline>'')
                     (appended s)) \<and>
              failed1 s' = failed1 s \<and> failed2 s' = failed2 s"
proof -
  let ?nr1 = "''@'' @ id1 @ ''\<newline>'' @ seq1 @ ''\<newline>+\<newline>'' @ q1 @ ''\<newline>''"
  let ?nr2 = "''@'' @ id1 @ ''\<newline>'' @ seq3 @ ''\<newline>+\<newline>'' @ q3 @ ''\<newline>''"
  let ?s1 = "s\<lparr>count := count s + 1, new_record1 := Some ?nr1, new_record2 := Some ?nr2\<rparr>"
  have b: "loop_body lev t
             (Four (id1, seq1, Some q1) (id2, seq2, q2) (id3, seq3, Some q3) (id4, seq4, q4)) s
           = demultiplex_read lev t id1 (seq4 @ seq2) ?s1"
    by (rule loop_body_Four)
  have x: "XXdict1 ?s1 = Some XXd" and o: "outputreads ?s1 = Some outr"
    and n1: "new_record1 ?s1 = Some ?nr1" and n2: "new_record2 ?s1 = Some ?nr2"
    using assms(1,2) by simp_all
  from assms(3) show ?thesis
  proof
    assume "classify lev t (seq4 @ seq2) XXd = Inr (Exact (Path p))"
    then have m: "map_of XXd (seq4 @ seq2) = Some (Path p)" by (rule classify_Exact)
    show ?thesis
      unfolding b demultiplex_read_exact [OF x m n1 n2 o] by simp
  next
    assume "classify lev t (seq4 @ seq2) XXd = Inr (Fuzzy (Path p))"
    from classify_Fuzzy [OF this] obtain ndx where
      nk: "seq4 @ seq2 \<notin> set (map fst XXd)"
      and m: "fuzzy_matches lev t (seq4 @ seq2) XXd = [ndx]"
      and v: "map_of XXd ndx = Some (Path p)" by blast
    show ?thesis
      unfolding b demultiplex_read_fuzzy [OF x nk m v n1 n2 o] by simp
  qed
qed

theorem matched_read_payload_witness:
  "classify lev_distance 1 (''GT'' @ ''CC'') [(''GTCA'', Path ''S1_R1.fq'')]
     = Inr (Fuzzy (Path ''S1_R1.fq'')) \<and>
   map_sum id appended
     (loop_body lev_distance 1
        (Four (''a'', ''AC'', Some ''II'') (''x'', ''CC'', None)
              (''b'', ''TT'', Some ''JJ'') (''y'', ''GT'', None))
        (initial_state\<lparr>XXdict1 := Some [(''GTCA'', Path ''S1_R1.fq'')],
                        outputreads := Some [(''Undetermined'', 0), (''S1'', 0)]\<rparr>))
     = Inr [(''S1_R1.fq'', ''@a'' @ ''\<newline>'' @ ''AC'' @ ''\<newline>+\<newline>'' @ ''II'' @ ''\<newline>''),
            (''S1_R2.fq'', ''@a'' @ ''\<newline>'' @ ''TT'' @ ''\<newline>+\<newline>'' @ ''JJ'' @ ''\<newline>'')]"
  using matched_read_payload
          [of "initial_state\<lparr>XXdict1 := Some [(''GTCA'', Path ''S1_R1.fq'')],
                        outputreads := Some [(''Undetermined'', 0), (''S1'', 0)]\<rparr>"
              "[(''GTCA'', Path ''S1_R1.fq'')]" "[(''Undetermined'', 0), (''S1'', 0)]"
              lev_distance 1 "''GT''" "''CC''" "''S1_R1.fq''"
              "''a''" "''AC''" "''II''" "''x''" None "''b''" "''TT''" "''JJ''" "''y''" None]
  by (auto simp: classify_def fuzzy_matches_def py_bind_def py_lookup_def append_file_def
      replace_str.simps initial_state_def)

subsection \<open>Conservation of reads\<close>

text \<open>
  C9. Every iteration of the main loop that completes adds one to \<open>count\<close> and one
  to exactly one entry of \<open>outputreads\<close> (a sample's file name or \<open>Undetermined\<close>).
  Hence, when the script reaches the end of the main loop, the counts of
  \<open>outputreads\<close> add up to \<open>count\<close>, the number of tuples read.
\<close>

theorem reads_conserved:
  "(loop_body lev t recs s = Inr s' \<longrightarrow>
      (\<exists>outr k. outputreads s = Some outr \<and> outputreads s' = Some (counter_incr k outr) \<and>
         counter_get (counter_incr k outr) k = counter_get outr k + 1 \<and>
         (\<forall>k'. k' = k \<or> counter_get (counter_incr k outr) k' = counter_get outr k') \<and>
         sum_list (map snd (counter_incr k outr)) = sum_list (map snd outr) + 1 \<and>
         count s' = count s + 1)) \<and>
   (run fs revcomp lev a = Inr s'' \<longrightarrow>
      (\<exists>outr. outputreads s'' = Some outr \<and> sum_list (map snd outr) = count s'') \<and>
      count s'' = length (zipfqs fs a))"
proof (intro conjI impI)
  assume "loop_body lev t recs s = Inr s'"
  from loop_body_Inr [OF this]
  show "\<exists>outr k. outputreads s = Some outr \<and> outputreads s' = Some (counter_incr k outr) \<and>
         counter_get (counter_incr k outr) k = counter_get outr k + 1 \<and>
         (\<forall>k'. k' = k \<or> counter_get (counter_incr k outr) k' = counter_get outr k') \<and>
         sum_list (map snd (counter_incr k outr)) = sum_list (map snd outr) + 1 \<and>
         count s' = count s + 1"
    by (auto simp: counter_incr_sum counter_get_incr)
next
  assume r: "run fs revcomp lev a = Inr s''"
  then obtain g where st: "startup_checks fs a = Inr ()"
    and bt: "build_tables fs revcomp a = Inr g"
    and lp: "demultiplex_loop lev (threshold a) (zipfqs fs a) g = Inr s''"
    by (auto simp: run_def py_bind_def split: sum.splits)
  from st have "outputall a \<or> truthy (indexlist a)"
    by (auto simp: startup_checks_def split: if_splits)
  from build_tables_Inr [OF bt this] obtain outr where
    g: "count g = 0" "outputreads g = Some outr" "sum_list (map snd outr) = 0" by blast
  from demultiplex_loop_Inr [OF lp g(2)] g(1,3)
  show "\<exists>outr. outputreads s'' = Some outr \<and> sum_list (map snd outr) = count s''"
    and "count s'' = length (zipfqs fs a)"
    by auto
qed

theorem reads_conserved_witness:
  "let fs = (\<lambda>p. if p = ''s.csv'' then ''S1,TG,GT'' @ ''\<newline>''
               else if p = ''r1.fq'' then ''@a'' @ ''\<newline>'' @ ''AC'' @ ''\<newline>+\<newline>'' @ ''II'' @ ''\<newline>'' @
                                          ''@b'' @ ''\<newline>'' @ ''AC'' @ ''\<newline>+\<newline>'' @ ''II'' @ ''\<newline>''
               else if p = ''i1.fq'' then ''@a'' @ ''\<newline>'' @ ''CA'' @ ''\<newline>+\<newline>'' @ ''II'' @ ''\<newline>'' @
                                          ''@b'' @ ''\<newline>'' @ ''TT'' @ ''\<newline>+\<newline>'' @ ''II'' @ ''\<newline>''
               else if p = ''r2.fq'' then ''@a'' @ ''\<newline>'' @ ''GG'' @ ''\<newline>+\<newline>'' @ ''JJ'' @ ''\<newline>'' @
                                          ''@b'' @ ''\<newline>'' @ ''GG'' @ ''\<newline>+\<newline>'' @ ''JJ'' @ ''\<newline>''
               else ''@a'' @ ''\<newline>'' @ ''GT'' @ ''\<newline>+\<newline>'' @ ''II'' @ ''\<newline>'' @
                    ''@b'' @ ''\<newline>'' @ ''TT'' @ ''\<newline>+\<newline>'' @ ''II'' @ ''\<newline>'');
       a = \<lparr>read1 = ''r1.fq'', read2 = ''r2.fq'', index1 = ''i1.fq'', index2 = Some ''i2.fq'',
            indexlist = Some ''s.csv'', threshold = 1, outputall = False, extension = ''fq''\<rparr>
   in map_sum id count (run fs reverse_complement lev_distance a) = Inr 2 \<and>
      map_sum id outputreads (run fs reverse_complement lev_distance a)
        = Inr (Some [(''Undetermined'', 1), (''S1'', 0), (''S1_R1.fq'', 1)])"
proof -
  define fs where "fs = (\<lambda>p. if p = ''s.csv'' then ''S1,TG,GT'' @ ''\<newline>''
               else if p = ''r1.fq'' then ''@a'' @ ''\<newline>'' @ ''AC'' @ ''\<newline>+\<newline>'' @ ''II'' @ ''\<newline>'' @
                                          ''@b'' @ ''\<newline>'' @ ''AC'' @ ''\<newline>+\<newline>'' @ ''II'' @ ''\<newline>''
               else if p = ''i1.fq'' then ''@a'' @ ''\<newline>'' @ ''CA'' @ ''\<newline>+\<newline>'' @ ''II'' @ ''\<newline>'' @
                                          ''@b'' @ ''\<newline>'' @ ''TT'' @ ''\<newline>+\<newline>'' @ ''II'' @ ''\<newline>''
               else if p = ''r2.fq'' then ''@a'' @ ''\<newline>'' @ ''GG'' @ ''\<newline>+\<newline>'' @ ''JJ'' @ ''\<newline>'' @
                                          ''@b'' @ ''\<newline>'' @ ''GG'' @ ''\<newline>+\<newline>'' @ ''JJ'' @ ''\<newline>''
               else ''@a'' @ ''\<newline>'' @ ''GT'' @ ''\<newline>+\<newline>'' @ ''II'' @ ''\<newline>'' @
                    ''@b'' @ ''\<newline>'' @ ''TT'' @ ''\<newline>+\<newline>'' @ ''II'' @ ''\<newline>'')"
  define a where "a = \<lparr>read1 = ''r1.fq'', read2 = ''r2.fq'', index1 = ''i1.fq'', index2 = Some ''i2.fq'',
            indexlist = Some ''s.csv'', threshold = 1, outputall = False, extension = ''fq''\<rparr>"
  have z: "zipfqs fs a =
             [Four (''a'', ''AC'', Some ''II'') (''a'', ''CA'', Some ''II'')
                   (''a'', ''GG'', Some ''JJ'') (''a'', ''GT'', Some ''II''),
              Four (''b'', ''AC'', Some ''II'') (''b'', ''TT'', Some ''II'')
                   (''b'', ''GG'', Some ''JJ'') (''b'', ''TT'', Some ''II'')]"
    by (simp add: zipfqs_def readfq_def readfq_loop.simps next_header_def fs_def a_def Let_def)
  have o: "map_sum id outputreads (run fs reverse_complement lev_distance a)
             = Inr (Some [(''Undetermined'', 1), (''S1'', 0), (''S1_R1.fq'', 1)])"
    unfolding run_def z
    by (simp add: fs_def a_def startup_checks_def fastq_check_def build_tables_def read_tables_def
        read_index_dual_file_def reverse_complement_def complement_def py_bind_def py_index_def
        py_str_def py_strip_def is_space_def
        initial_state_def Let_def loop_body_def demultiplex_read_def py_name_def
        py_lookup_def fuzzy_matches_def py_open_def write_sample_def write_failed_def
        count_output_def append_file_def counter_incr_def counter_get_def replace_str.simps)
  then obtain final where r: "run fs reverse_complement lev_distance a = Inr final"
    and f: "outputreads final = Some [(''Undetermined'', 1), (''S1'', 0), (''S1_R1.fq'', 1)]"
    by (cases "run fs reverse_complement lev_distance a") auto
  from reads_conserved [THEN conjunct2, rule_format, OF r] f
  have "count final = 2" by auto
  with r o show ?thesis unfolding fs_def a_def by (simp add: Let_def)
qed

subsection \<open>The sanity check on short files\<close>

text \<open>
  C10. \<open>fastq_check\<close> returns a verdict exactly for the files with at least four
  physical lines. For a file with fewer than four lines (an empty or truncated file)
  one of \<open>read[0]\<close>, \<open>read[2]\<close>, \<open>read[3]\<close> is out of range and the check ends with
  an uncaught IndexError; it does not return False.
\<close>

theorem fastq_check_short_file:
  "(length (py_lines (fs infile)) < 4 \<longrightarrow> fastq_check fs infile = Inl IndexError) \<and>
   (4 \<le> length (py_lines (fs infile)) \<longrightarrow> (\<exists>b. fastq_check fs infile = Inr b))"
proof (intro conjI impI)
  assume short: "length (py_lines (fs infile)) < 4"
  let ?read = "take 4 (py_lines (fs infile))"
  have len: "length ?read < 4" using short by simp
  have ne: "\<And>i. i < length ?read \<Longrightarrow> ?read ! i \<noteq> []"
    by (rule py_lines_take_nonempty)
  show "fastq_check fs infile = Inl IndexError"
    using len ne [of 0] ne [of 2]
    by (auto simp: fastq_check_def py_index_def py_bind_def Let_def split: sum.splits if_splits)
next
  assume long: "4 \<le> length (py_lines (fs infile))"
  let ?read = "take 4 (py_lines (fs infile))"
  have len: "length ?read = 4" using long by simp
  have ne: "\<And>i. i < length ?read \<Longrightarrow> ?read ! i \<noteq> []"
    by (rule py_lines_take_nonempty)
  show "\<exists>b. fastq_check fs infile = Inr b"
    using len ne [of 0] ne [of 2]
    by (auto simp: fastq_check_def py_index_def py_bind_def Let_def split: sum.splits if_splits)
qed

theorem fastq_check_short_file_witness:
  "fastq_check (\<lambda>_. ''@r1'' @ [CHR 0x0A] @ ''ACGT'' @ [CHR 0x0A] @ ''+'' @ [CHR 0x0A]) ''a.fq''
     = Inl IndexError \<and>
   (\<exists>b. fastq_check (\<lambda>_. ''@r1'' @ [CHR 0x0A] @ ''ACGT'' @ [CHR 0x0A] @ ''+'' @ [CHR 0x0A]
        @ ''IIII'' @ [CHR 0x0A]) ''a.fq'' = Inr b)"
  using fastq_check_short_file
          [of "\<lambda>_. ''@r1'' @ [CHR 0x0A] @ ''ACGT'' @ [CHR 0x0A] @ ''+'' @ [CHR 0x0A]" "''a.fq''"]
        fastq_check_short_file
          [of "\<lambda>_. ''@r1'' @ [CHR 0x0A] @ ''ACGT'' @ [CHR 0x0A] @ ''+'' @ [CHR 0x0A]
                @ ''IIII'' @ [CHR 0x0A]" "''a.fq''"]
  by simp

end
